theory Spec2Isabelle
  imports Main
begin

section \<open>The encryption API handler of src/web/api.py\<close>

text \<open>
  The module is one request handler class, \<^verbatim>\<open>EncryptionAPIHandler\<close>, with the
  methods \<^verbatim>\<open>_set_headers\<close>, \<^verbatim>\<open>do_OPTIONS\<close>, \<^verbatim>\<open>do_GET\<close> and \<^verbatim>\<open>do_POST\<close>.
  Each handler is embedded as a function from the request and the file system to
  what was sent to the client (or the exception that left the handler), the file system
  afterwards, and the files opened and processes run on the way.

  What the handler calls but the repository does not define is a parameter of the model
  (record \<open>platform\<close>): \<^verbatim>\<open>int\<close>, \<^verbatim>\<open>bytes.decode\<close>, \<^verbatim>\<open>json.loads\<close>, \<^verbatim>\<open>repr\<close> of
  floats and containers, \<^verbatim>\<open>subprocess.run\<close>, \<^verbatim>\<open>os.getcwd\<close>, the \<^verbatim>\<open>Server\<close> and
  \<^verbatim>\<open>Date\<close> header values that \<^verbatim>\<open>send_response\<close> adds, and the codec of the locale's
  encoding, with which \<^verbatim>\<open>open\<close> writes and reads a text file: a text that cannot be
  encoded makes \<^verbatim>\<open>f.write\<close> raise, bytes that cannot be decoded make \<^verbatim>\<open>f.read\<close>
  raise. A \<^verbatim>\<open>str\<close> is a \<open>string\<close>, and so are the bytes of a file. A process that
  does not end makes the handler that waits for it never return. File permissions and
  symbolic links are not modelled.
\<close>

subsection \<open>Python values\<close>

datatype py_error =
    TypeError | ValueError | AttributeError | UnicodeDecodeError | UnicodeEncodeError
  | JSONDecodeError
  | FileNotFoundError | IsADirectoryError | NotADirectoryError | PermissionError

text \<open>
  What \<^verbatim>\<open>json.loads\<close> returns. A dict keeps its insertion order and has no repeated
  key; \<open>JFloat\<close> carries the literal the float was read from.
\<close>

datatype json =
    JNull | JBool bool | JInt int | JFloat string | JStr string
  | JArray "json list" | JObject "(string \<times> json) list"

text \<open>\<^verbatim>\<open>data.get(key, default)\<close>: only a dict has the method.\<close>

fun dict_get :: "json \<Rightarrow> string \<Rightarrow> json \<Rightarrow> py_error + json" where
  "dict_get (JObject kvs) k d = Inr (case map_of kvs k of None \<Rightarrow> d | Some v \<Rightarrow> v)"
| "dict_get _ k d = Inl AttributeError"

text \<open>Decimal digits of a natural number, most significant first.\<close>

fun digits :: "nat \<Rightarrow> string" where
  "digits n =
     (if n < 10 then [''0123456789'' ! n]
      else digits (n div 10) @ [''0123456789'' ! (n mod 10)])"

declare digits.simps [simp del]

text \<open>
  \<^verbatim>\<open>str(v)\<close> for a value read from JSON. For a float, a list or a dict it is
  \<^verbatim>\<open>repr(v)\<close>, which is the parameter \<open>rp\<close>.
\<close>

fun py_str :: "(json \<Rightarrow> string) \<Rightarrow> json \<Rightarrow> string" where
  "py_str rp (JStr s) = s"
| "py_str rp JNull = ''None''"
| "py_str rp (JBool b) = (if b then ''True'' else ''False'')"
| "py_str rp (JInt i) = (if i < 0 then CHR ''-'' # digits (nat (- i)) else digits (nat i))"
| "py_str rp v = rp v"

subsection \<open>The file system\<close>

datatype node = File string | Dir

text \<open>
  A file system maps the canonical absolute path of a node, as the list of its
  components, to the node. The root \<open>[]\<close> is always a directory.
\<close>

type_synonym fs = "string list \<Rightarrow> node option"

text \<open>\<^verbatim>\<open>s.split('/')\<close>.\<close>

fun split_slash :: "string \<Rightarrow> string list" where
  "split_slash [] = [[]]"
| "split_slash (c # cs) =
     (if c = CHR ''/'' then [] # split_slash cs
      else (case split_slash cs of [] \<Rightarrow> [[c]] | x # xs \<Rightarrow> (c # x) # xs))"

text \<open>
  Path resolution as the operating system does it, component by component: the node
  reached so far must be a directory before the next component is looked up in it; an
  empty component and \<open>.\<close> stay, \<open>..\<close> goes to the parent (the root is its own
  parent). Every path the handlers open is absolute, so resolution starts at the root.
\<close>

fun walk :: "fs \<Rightarrow> string list \<Rightarrow> string list \<Rightarrow> py_error + string list" where
  "walk t cur [] = Inr cur"
| "walk t cur (c # cs) =
     (if cur = [] \<or> t cur = Some Dir then
        walk t (if c = [] \<or> c = ''.'' then cur
                else if c = ''..'' then butlast cur
                else cur @ [c]) cs
      else if t cur = None then Inl FileNotFoundError
      else Inl NotADirectoryError)"

definition resolve :: "fs \<Rightarrow> string \<Rightarrow> py_error + string list" where
  "resolve t p = walk t [] (split_slash p)"

text \<open>\<^verbatim>\<open>os.path.exists\<close> and \<^verbatim>\<open>os.path.isfile\<close>: false when the path does not resolve.\<close>

definition path_exists :: "fs \<Rightarrow> string \<Rightarrow> bool" where
  "path_exists t p =
     (case resolve t p of Inl e \<Rightarrow> False | Inr cur \<Rightarrow> cur = [] \<or> t cur \<noteq> None)"

definition path_isfile :: "fs \<Rightarrow> string \<Rightarrow> bool" where
  "path_isfile t p =
     (case resolve t p of
        Inl e \<Rightarrow> False
      | Inr cur \<Rightarrow> (case t cur of Some (File b) \<Rightarrow> True | _ \<Rightarrow> False))"

text \<open>\<^verbatim>\<open>open(p, 'rb')\<close> followed by \<^verbatim>\<open>read()\<close>: the bytes of the file.\<close>

definition read_bytes :: "fs \<Rightarrow> string \<Rightarrow> py_error + string" where
  "read_bytes t p =
     (case resolve t p of
        Inl e \<Rightarrow> Inl e
      | Inr cur \<Rightarrow>
          (case t cur of
             Some (File b) \<Rightarrow> Inr b
           | Some Dir \<Rightarrow> Inl IsADirectoryError
           | None \<Rightarrow> if cur = [] then Inl IsADirectoryError else Inl FileNotFoundError))"

text \<open>
  Reading in text mode (\<^verbatim>\<open>open(p, 'r')\<close>, so \<^verbatim>\<open>newline=None\<close>): the bytes are
  decoded with the locale's encoding (\<open>dec\<close>), which raises on bytes that are not
  valid, and then universal newlines apply: \<^verbatim>\<open>\r\n\<close> and a lone \<^verbatim>\<open>\r\<close> are returned
  as \<^verbatim>\<open>\n\<close>.
\<close>

fun universal_newlines :: "string \<Rightarrow> string" where
  "universal_newlines [] = []"
| "universal_newlines [c] = [if c = CHR 0x0D then CHR 0x0A else c]"
| "universal_newlines (c # d # cs) =
     (if c = CHR 0x0D then
        (if d = CHR 0x0A then CHR 0x0A # universal_newlines cs
         else CHR 0x0A # universal_newlines (d # cs))
      else c # universal_newlines (d # cs))"

definition read_text :: "(string \<Rightarrow> py_error + string) \<Rightarrow> fs \<Rightarrow> string \<Rightarrow> py_error + string" where
  "read_text dec t p =
     (case read_bytes t p of
        Inl e \<Rightarrow> Inl e
      | Inr b \<Rightarrow> (case dec b of Inl e \<Rightarrow> Inl e | Inr s \<Rightarrow> Inr (universal_newlines s)))"

text \<open>
  \<^verbatim>\<open>open(p, 'w')\<close>: the file is created, or truncated when it exists, and the handle
  (here the canonical path) is returned with the new file system.
\<close>

definition open_write :: "fs \<Rightarrow> string \<Rightarrow> py_error + (string list \<times> fs)" where
  "open_write t p =
     (case resolve t p of
        Inl e \<Rightarrow> Inl e
      | Inr cur \<Rightarrow>
          if cur = [] \<or> t cur = Some Dir then Inl IsADirectoryError
          else if t (butlast cur) = Some Dir \<or> butlast cur = [] then
            Inr (cur, t(cur \<mapsto> File []))
          else Inl FileNotFoundError)"

text \<open>
  \<^verbatim>\<open>f.write(v)\<close> on a text file, closed right after: \<open>v\<close> must be a \<^verbatim>\<open>str\<close>, and it
  is encoded with the locale's encoding (\<open>enc\<close>), which raises on a text it cannot
  encode (such as a lone surrogate), before anything is written.
\<close>

fun file_write ::
  "(string \<Rightarrow> py_error + string) \<Rightarrow> fs \<Rightarrow> string list \<Rightarrow> json \<Rightarrow> py_error + fs" where
  "file_write enc t f (JStr s) =
     (case enc s of Inl e \<Rightarrow> Inl e | Inr b \<Rightarrow> Inr (t(f \<mapsto> File b)))"
| "file_write enc t f _ = Inl TypeError"

subsection \<open>The platform, requests and responses\<close>

text \<open>
  \<^verbatim>\<open>subprocess.run(cmd)\<close> either fails to start the process, or waits for it and
  returns its exit code; the process may have changed the file system. It is called
  with no timeout: when the process does not end, the call does not return (\<open>Hangs\<close>).
\<close>

datatype run_result = SpawnError py_error | Completed int fs | Hangs

record platform =
  py_int :: "string \<Rightarrow> py_error + int"
  decode_utf8 :: "string \<Rightarrow> py_error + string"
  json_loads :: "string \<Rightarrow> py_error + json"
  py_repr :: "json \<Rightarrow> string"
  encode_text :: "string \<Rightarrow> py_error + string"
  decode_text :: "string \<Rightarrow> py_error + string"
  subprocess_run :: "string list \<Rightarrow> fs \<Rightarrow> run_result"
  getcwd :: string
  version_string :: string
  date_time_string :: string

text \<open>
  What a handler reads of the request: \<^verbatim>\<open>self.path\<close>, the value of
  \<^verbatim>\<open>self.headers['Content-Length']\<close> (\<open>None\<close> when the header is absent) and
  \<^verbatim>\<open>self.rfile\<close>, the bytes that follow the headers on the connection up to its end.
\<close>

record request =
  path :: string
  content_length :: "string option"
  rfile :: string

text \<open>
  What was written to \<^verbatim>\<open>self.wfile\<close>: the status line, the headers in order, the
  body. \<open>JsonText v\<close> is \<^verbatim>\<open>json.dumps(v).encode()\<close>.
\<close>

datatype payload = NoBody | JsonText json | Bytes string

record response =
  status :: nat
  sent_headers :: "(string \<times> string) list"
  body :: payload

text \<open>
  A handler either returns, having sent a response, or an exception leaves it, or it
  never returns (\<open>Hung\<close>: it waits for a process that does not end). Every raise in
  the handlers comes before their first write to the client, so nothing has been sent
  then; the server logs the exception and closes the connection.
\<close>

datatype outcome = Sent response | Raised py_error | Hung

datatype event = Open string string | Run "string list"

record handled =
  reply :: outcome
  files :: fs
  events :: "event list"

text \<open>
  \<^verbatim>\<open>send_response(code)\<close> writes the status line and the \<^verbatim>\<open>Server\<close> and
  \<^verbatim>\<open>Date\<close> headers.
\<close>

definition send_response :: "platform \<Rightarrow> nat \<Rightarrow> response" where
  "send_response P code =
     \<lparr>status = code,
      sent_headers = [(''Server'', version_string P), (''Date'', date_time_string P)],
      body = NoBody\<rparr>"

definition send_header :: "response \<Rightarrow> string \<Rightarrow> string \<Rightarrow> response" where
  "send_header rsp k v = rsp\<lparr>sent_headers := sent_headers rsp @ [(k, v)]\<rparr>"

definition wfile_write :: "response \<Rightarrow> payload \<Rightarrow> response" where
  "wfile_write rsp b = rsp\<lparr>body := b\<rparr>"

definition set_headers :: "platform \<Rightarrow> string \<Rightarrow> response" where
  "set_headers P content_type =
     send_header
       (send_header
          (send_header
             (send_header (send_response P 200) ''Content-type'' content_type)
             ''Access-Control-Allow-Origin'' ''*'')
          ''Access-Control-Allow-Methods'' ''GET, POST, OPTIONS'')
       ''Access-Control-Allow-Headers'' ''Content-Type''"

text \<open>\<^verbatim>\<open>int(self.headers['Content-Length'])\<close>: \<^verbatim>\<open>int(None)\<close> is a \<^verbatim>\<open>TypeError\<close>.\<close>

definition int_of_header :: "platform \<Rightarrow> string option \<Rightarrow> py_error + int" where
  "int_of_header P h = (case h of None \<Rightarrow> Inl TypeError | Some s \<Rightarrow> py_int P s)"

text \<open>
  \<^verbatim>\<open>self.rfile.read(n)\<close> on the buffered reader of the connection: \<open>n\<close> bytes, or
  all that come before the end of the stream when they are fewer; all of them for
  \<open>-1\<close>; a \<^verbatim>\<open>ValueError\<close> below \<open>-1\<close>.
\<close>

definition rfile_read :: "string \<Rightarrow> int \<Rightarrow> py_error + string" where
  "rfile_read b n =
     (if n < - 1 then Inl ValueError
      else if n = - 1 then Inr b
      else Inr (take (nat n) b))"

text \<open>\<^verbatim>\<open>s.lstrip('/')\<close>, \<^verbatim>\<open>s.endswith(t)\<close> and \<^verbatim>\<open>os.path.join(a, b)\<close> (POSIX).\<close>

definition lstrip_slash :: "string \<Rightarrow> string" where
  "lstrip_slash s = dropWhile (\<lambda>c. c = CHR ''/'') s"

definition endswith :: "string \<Rightarrow> string \<Rightarrow> bool" where
  "endswith s t = (length t \<le> length s \<and> drop (length s - length t) s = t)"

definition os_path_join :: "string \<Rightarrow> string \<Rightarrow> string" where
  "os_path_join a b =
     (if b \<noteq> [] \<and> hd b = CHR ''/'' then b
      else if a = [] \<or> last a = CHR ''/'' then a @ b
      else a @ ''/'' @ b)"

subsection \<open>The handlers\<close>

definition do_OPTIONS :: "platform \<Rightarrow> fs \<Rightarrow> request \<Rightarrow> handled" where
  "do_OPTIONS P t r =
     \<lparr>reply = Sent (set_headers P ''application/json''), files = t, events = []\<rparr>"

definition do_GET :: "platform \<Rightarrow> fs \<Rightarrow> request \<Rightarrow> handled" where
  "do_GET P t r =
     (if path r = ''/api/status'' then
        \<lparr>reply = Sent (wfile_write (set_headers P ''application/json'')
                   (JsonText (JObject [(''status'', JStr ''running'')]))),
         files = t, events = []\<rparr>
      else
        (let file_path = os_path_join (getcwd P) (lstrip_slash (path r)) in
         if path_exists t file_path \<and> path_isfile t file_path then
           (case read_bytes t file_path of
              Inl e \<Rightarrow> \<lparr>reply = Raised e, files = t, events = [Open file_path ''rb'']\<rparr>
            | Inr content \<Rightarrow>
                \<lparr>reply = Sent (wfile_write
                   (set_headers P
                      (if endswith file_path ''.html'' then ''text/html'' else ''text/plain''))
                   (Bytes content)),
                 files = t, events = [Open file_path ''rb'']\<rparr>)
         else \<lparr>reply = Sent (send_response P 404), files = t, events = []\<rparr>))"

text \<open>
  \<open>do_POST\<close> has the two branches of the source written out, each with its own copy
  of the steps: read the declared number of bytes, decode and parse them, write the text
  to the input file, run the Java program, read the output file, answer.
\<close>

definition do_POST :: "platform \<Rightarrow> fs \<Rightarrow> request \<Rightarrow> handled" where
  "do_POST P t r =
     (if path r = ''/api/encrypt'' then
        (case int_of_header P (content_length r) of
           Inl e \<Rightarrow> \<lparr>reply = Raised e, files = t, events = []\<rparr>
         | Inr n \<Rightarrow>
        (case rfile_read (rfile r) n of
           Inl e \<Rightarrow> \<lparr>reply = Raised e, files = t, events = []\<rparr>
         | Inr post_data \<Rightarrow>
        (case decode_utf8 P post_data of
           Inl e \<Rightarrow> \<lparr>reply = Raised e, files = t, events = []\<rparr>
         | Inr s \<Rightarrow>
        (case json_loads P s of
           Inl e \<Rightarrow> \<lparr>reply = Raised e, files = t, events = []\<rparr>
         | Inr data \<Rightarrow>
        (case open_write t ''/tmp/input.txt'' of
           Inl e \<Rightarrow> \<lparr>reply = Raised e, files = t, events = [Open ''/tmp/input.txt'' ''w'']\<rparr>
         | Inr (f, t1) \<Rightarrow>
        (case dict_get data ''text'' (JStr []) of
           Inl e \<Rightarrow> \<lparr>reply = Raised e, files = t1, events = [Open ''/tmp/input.txt'' ''w'']\<rparr>
         | Inr txt \<Rightarrow>
        (case file_write (encode_text P) t1 f txt of
           Inl e \<Rightarrow> \<lparr>reply = Raised e, files = t1, events = [Open ''/tmp/input.txt'' ''w'']\<rparr>
         | Inr t2 \<Rightarrow>
        (case dict_get data ''key'' (JInt 3) of
           Inl e \<Rightarrow> \<lparr>reply = Raised e, files = t2, events = [Open ''/tmp/input.txt'' ''w'']\<rparr>
         | Inr k \<Rightarrow>
        (let cmd = [''java'', ''-cp'', ''../bin'', ''WebAppLauncher'',
                    ''/tmp/input.txt'', ''/tmp/output.txt'',
                    py_str (py_repr P) k, ''1'']
         in
        (case subprocess_run P cmd t2 of
           SpawnError e \<Rightarrow>
             \<lparr>reply = Raised e, files = t2,
              events = [Open ''/tmp/input.txt'' ''w'', Run cmd]\<rparr>
         | Hangs \<Rightarrow>
             \<lparr>reply = Hung, files = t2,
              events = [Open ''/tmp/input.txt'' ''w'', Run cmd]\<rparr>
         | Completed rc t3 \<Rightarrow>
        (case read_text (decode_text P) t3 ''/tmp/output.txt'' of
           Inl e \<Rightarrow>
             \<lparr>reply = Raised e, files = t3,
              events = [Open ''/tmp/input.txt'' ''w'', Run cmd, Open ''/tmp/output.txt'' ''r'']\<rparr>
         | Inr result \<Rightarrow>
             \<lparr>reply = Sent (wfile_write (set_headers P ''application/json'')
                        (JsonText (JObject [(''result'', JStr result)]))),
              files = t3,
              events = [Open ''/tmp/input.txt'' ''w'', Run cmd,
                        Open ''/tmp/output.txt'' ''r'']\<rparr>)))))))))))
      else if path r = ''/api/decrypt'' then
        (case int_of_header P (content_length r) of
           Inl e \<Rightarrow> \<lparr>reply = Raised e, files = t, events = []\<rparr>
         | Inr n \<Rightarrow>
        (case rfile_read (rfile r) n of
           Inl e \<Rightarrow> \<lparr>reply = Raised e, files = t, events = []\<rparr>
         | Inr post_data \<Rightarrow>
        (case decode_utf8 P post_data of
           Inl e \<Rightarrow> \<lparr>reply = Raised e, files = t, events = []\<rparr>
         | Inr s \<Rightarrow>
        (case json_loads P s of
           Inl e \<Rightarrow> \<lparr>reply = Raised e, files = t, events = []\<rparr>
         | Inr data \<Rightarrow>
        (case open_write t ''/tmp/input.txt'' of
           Inl e \<Rightarrow> \<lparr>reply = Raised e, files = t, events = [Open ''/tmp/input.txt'' ''w'']\<rparr>
         | Inr (f, t1) \<Rightarrow>
        (case dict_get data ''text'' (JStr []) of
           Inl e \<Rightarrow> \<lparr>reply = Raised e, files = t1, events = [Open ''/tmp/input.txt'' ''w'']\<rparr>
         | Inr txt \<Rightarrow>
        (case file_write (encode_text P) t1 f txt of
           Inl e \<Rightarrow> \<lparr>reply = Raised e, files = t1, events = [Open ''/tmp/input.txt'' ''w'']\<rparr>
         | Inr t2 \<Rightarrow>
        (case dict_get data ''key'' (JInt 3) of
           Inl e \<Rightarrow> \<lparr>reply = Raised e, files = t2, events = [Open ''/tmp/input.txt'' ''w'']\<rparr>
         | Inr k \<Rightarrow>
        (let cmd = [''java'', ''-cp'', ''../bin'', ''WebAppLauncher'',
                    ''/tmp/input.txt'', ''/tmp/output.txt'',
                    py_str (py_repr P) k, ''2'']
         in
        (case subprocess_run P cmd t2 of
           SpawnError e \<Rightarrow>
             \<lparr>reply = Raised e, files = t2,
              events = [Open ''/tmp/input.txt'' ''w'', Run cmd]\<rparr>
         | Hangs \<Rightarrow>
             \<lparr>reply = Hung, files = t2,
              events = [Open ''/tmp/input.txt'' ''w'', Run cmd]\<rparr>
         | Completed rc t3 \<Rightarrow>
        (case read_text (decode_text P) t3 ''/tmp/output.txt'' of
           Inl e \<Rightarrow>
             \<lparr>reply = Raised e, files = t3,
              events = [Open ''/tmp/input.txt'' ''w'', Run cmd, Open ''/tmp/output.txt'' ''r'']\<rparr>
         | Inr result \<Rightarrow>
             \<lparr>reply = Sent (wfile_write (set_headers P ''application/json'')
                        (JsonText (JObject [(''result'', JStr result)]))),
              files = t3,
              events = [Open ''/tmp/input.txt'' ''w'', Run cmd,
                        Open ''/tmp/output.txt'' ''r'']\<rparr>)))))))))))
      else \<lparr>reply = Sent (send_response P 404), files = t, events = []\<rparr>)"

text \<open>
  The server calls the method named after the request's command. Only the three
  commands the class defines are modelled.
\<close>

datatype command = GET | POST | OPTIONS

fun handle :: "platform \<Rightarrow> fs \<Rightarrow> command \<Rightarrow> request \<Rightarrow> handled" where
  "handle P t GET r = do_GET P t r"
| "handle P t POST r = do_POST P t r"
| "handle P t OPTIONS r = do_OPTIONS P t r"

text \<open>
  \<open>run_server\<close> starts an \<^verbatim>\<open>HTTPServer\<close>, which has one thread: \<^verbatim>\<open>serve_forever\<close>
  handles the requests one after the other, each on the file system the one before
  left, and goes on after a handler that raised. Each request gets the outcome of its
  handler, or \<open>None\<close> when its handler is never called, because an earlier handler does
  not return.
\<close>

fun serve_forever :: "platform \<Rightarrow> fs \<Rightarrow> (command \<times> request) list \<Rightarrow> outcome option list" where
  "serve_forever P t [] = []"
| "serve_forever P t ((c, r) # rest) =
     (let h = handle P t c r in
      Some (reply h) #
        (if reply h = Hung then map (\<lambda>q. None) rest else serve_forever P (files h) rest))"

subsection \<open>Reading the handlers\<close>

text \<open>
  The JSON value a POST handler works on: lines 37 to 39 (and 60 to 62) of the source,
  as one function of the request.
\<close>

definition request_json :: "platform \<Rightarrow> request \<Rightarrow> py_error + json" where
  "request_json P r =
     (case int_of_header P (content_length r) of
        Inl e \<Rightarrow> Inl e
      | Inr n \<Rightarrow>
          (case rfile_read (rfile r) n of
             Inl e \<Rightarrow> Inl e
           | Inr post_data \<Rightarrow>
               (case decode_utf8 P post_data of
                  Inl e \<Rightarrow> Inl e
                | Inr s \<Rightarrow> json_loads P s)))"

text \<open>The command line of the Java program for a key and a mode code.\<close>

definition worker_cmd :: "string \<Rightarrow> string \<Rightarrow> string list" where
  "worker_cmd k m =
     [''java'', ''-cp'', ''../bin'', ''WebAppLauncher''] @
     [''/tmp/input.txt'', ''/tmp/output.txt'', k, m]"

text \<open>
  One transform procedure with the mode code as its parameter: what the two branches of
  \<open>do_POST\<close> are compared with. The mode is used in the command line and nowhere else.
\<close>

definition run_worker :: "string \<Rightarrow> platform \<Rightarrow> fs \<Rightarrow> json \<Rightarrow> handled" where
  "run_worker m P t2 k =
     (let cmd = worker_cmd (py_str (py_repr P) k) m in
      case subprocess_run P cmd t2 of
        SpawnError e \<Rightarrow>
          \<lparr>reply = Raised e, files = t2, events = [Open ''/tmp/input.txt'' ''w'', Run cmd]\<rparr>
      | Hangs \<Rightarrow>
          \<lparr>reply = Hung, files = t2, events = [Open ''/tmp/input.txt'' ''w'', Run cmd]\<rparr>
      | Completed rc t3 \<Rightarrow>
          (case read_text (decode_text P) t3 ''/tmp/output.txt'' of
             Inl e \<Rightarrow>
               \<lparr>reply = Raised e, files = t3,
                events = [Open ''/tmp/input.txt'' ''w'', Run cmd,
                          Open ''/tmp/output.txt'' ''r'']\<rparr>
           | Inr result \<Rightarrow>
               \<lparr>reply = Sent (wfile_write (set_headers P ''application/json'')
                          (JsonText (JObject [(''result'', JStr result)]))),
                files = t3,
                events = [Open ''/tmp/input.txt'' ''w'', Run cmd,
                          Open ''/tmp/output.txt'' ''r'']\<rparr>))"

definition transform_json :: "string \<Rightarrow> platform \<Rightarrow> fs \<Rightarrow> json \<Rightarrow> handled" where
  "transform_json m P t data =
     (case open_write t ''/tmp/input.txt'' of
        Inl e \<Rightarrow> \<lparr>reply = Raised e, files = t, events = [Open ''/tmp/input.txt'' ''w'']\<rparr>
      | Inr (f, t1) \<Rightarrow>
          (case dict_get data ''text'' (JStr []) of
             Inl e \<Rightarrow>
               \<lparr>reply = Raised e, files = t1, events = [Open ''/tmp/input.txt'' ''w'']\<rparr>
           | Inr txt \<Rightarrow>
               (case file_write (encode_text P) t1 f txt of
                  Inl e \<Rightarrow>
                    \<lparr>reply = Raised e, files = t1, events = [Open ''/tmp/input.txt'' ''w'']\<rparr>
                | Inr t2 \<Rightarrow>
                    (case dict_get data ''key'' (JInt 3) of
                       Inl e \<Rightarrow>
                         \<lparr>reply = Raised e, files = t2,
                          events = [Open ''/tmp/input.txt'' ''w'']\<rparr>
                     | Inr k \<Rightarrow> run_worker m P t2 k))))"

definition transform :: "string \<Rightarrow> platform \<Rightarrow> fs \<Rightarrow> request \<Rightarrow> handled" where
  "transform m P t r =
     (case request_json P r of
        Inl e \<Rightarrow> \<lparr>reply = Raised e, files = t, events = []\<rparr>
      | Inr data \<Rightarrow> transform_json m P t data)"

text \<open>The paths a handler opened, and the command lines it ran.\<close>

fun opened :: "event list \<Rightarrow> string list" where
  "opened [] = []"
| "opened (Open p m # es) = p # opened es"
| "opened (Run cmd # es) = opened es"

fun commands :: "event list \<Rightarrow> string list list" where
  "commands [] = []"
| "commands (Open p m # es) = commands es"
| "commands (Run cmd # es) = cmd # commands es"

text \<open>
  The status of a reply; \<open>None\<close> when the handler raised or never returned, and sent
  nothing.
\<close>

fun status_of :: "outcome \<Rightarrow> nat option" where
  "status_of (Sent rsp) = Some (status rsp)"
| "status_of (Raised e) = None"
| "status_of Hung = None"




subsection \<open>A worker and a platform for the examples\<close>

text \<open>
  Modelled from the spec: the transform executable (the Java class
  \<^verbatim>\<open>WebAppLauncher\<close>, which is not among the sources). Section 6 of the specification
  gives its contract: invoked with input path, output path, key and mode (1 or 2), it
  reads the input file, writes the transformed text to the output file and exits with
  code 0. Here it exits with code 1, writing nothing, when it cannot read its input or
  is not called this way.
\<close>

definition contract_worker ::
  "(string \<Rightarrow> string \<Rightarrow> string) \<Rightarrow> (string \<Rightarrow> string \<Rightarrow> string) \<Rightarrow> string list \<Rightarrow> fs \<Rightarrow> run_result" where
  "contract_worker enc dec cmd t =
     (case drop 4 cmd of
        [inp, outp, k, m] \<Rightarrow>
          (case read_bytes t inp of
             Inl e \<Rightarrow> Completed 1 t
           | Inr x \<Rightarrow>
               (case open_write t outp of
                  Inl e \<Rightarrow> Completed 1 t
                | Inr (f, t1) \<Rightarrow>
                    if m = ''1'' then Completed 0 (t1(f \<mapsto> File (enc k x)))
                    else if m = ''2'' then Completed 0 (t1(f \<mapsto> File (dec k x)))
                    else Completed 1 t))
      | _ \<Rightarrow> Completed 1 t)"

text \<open>
  A Caesar cipher on the capital letters, the example of section 8 of the specification:
  the key is read as a decimal number (a character that is no digit counts as 0).
\<close>

fun index_of :: "'a \<Rightarrow> 'a list \<Rightarrow> nat" where
  "index_of x [] = 0"
| "index_of x (y # ys) = (if x = y then 0 else Suc (index_of x ys))"

definition key_shift :: "string \<Rightarrow> nat" where
  "key_shift k = foldl (\<lambda>a c. 10 * a + index_of c ''0123456789'' mod 10) 0 k mod 26"

definition capitals :: string where
  "capitals = ''ABCDEFGHIJKLMNOPQRSTUVWXYZ''"

definition rotate :: "nat \<Rightarrow> char \<Rightarrow> char" where
  "rotate n c =
     (if c \<in> set capitals then capitals ! ((index_of c capitals + n) mod 26) else c)"

definition caesar_enc :: "string \<Rightarrow> string \<Rightarrow> string" where
  "caesar_enc k x = map (rotate (key_shift k)) x"

definition caesar_dec :: "string \<Rightarrow> string \<Rightarrow> string" where
  "caesar_dec k x = map (rotate (26 - key_shift k)) x"

text \<open>
  A builtin given by a table of the arguments an example passes to it; any other
  argument raises \<open>e\<close>. In the examples every key is an integer, so \<^verbatim>\<open>repr\<close> is
  never called, and every body, text and file is ASCII, which \<^verbatim>\<open>decode('utf-8')\<close> and
  the codec of the locale leave as they are.
\<close>

definition table :: "py_error \<Rightarrow> ('a \<times> 'b) list \<Rightarrow> 'a \<Rightarrow> py_error + 'b" where
  "table e kvs x = (case map_of kvs x of None \<Rightarrow> Inl e | Some v \<Rightarrow> Inr v)"

definition example_platform ::
  "(string \<times> int) list \<Rightarrow> (string \<times> json) list \<Rightarrow> (string list \<Rightarrow> fs \<Rightarrow> run_result) \<Rightarrow> platform" where
  "example_platform ints jsons worker =
     \<lparr>py_int = table ValueError ints,
      decode_utf8 = Inr,
      json_loads = table JSONDecodeError jsons,
      py_repr = (\<lambda>v. []),
      encode_text = Inr,
      decode_text = Inr,
      subprocess_run = worker,
      getcwd = ''/srv/app'',
      version_string = ''BaseHTTP/0.6 Python/3.11.4'',
      date_time_string = ''Tue, 03 Nov 2026 12:00:00 GMT''\<rparr>"

definition example_fs :: fs where
  "example_fs = [[''tmp''] \<mapsto> Dir, [''srv''] \<mapsto> Dir, [''srv'', ''app''] \<mapsto> Dir,
     [''srv'', ''app'', ''index.html''] \<mapsto> File ''<html></html>'',
     [''srv'', ''secret.txt''] \<mapsto> File ''s3cret'',
     [''etc''] \<mapsto> Dir, [''etc'', ''passwd''] \<mapsto> File ''root:x:0:0:root:/root:/bin/sh'']"

text \<open>
  A POST request as a client sends it, and the platform of the examples: \<^verbatim>\<open>int\<close> is
  known on the listed header values, \<^verbatim>\<open>json.loads\<close> on the listed bodies.
\<close>

definition post :: "string \<Rightarrow> string \<Rightarrow> string \<Rightarrow> request" where
  "post p n b = \<lparr>path = p, content_length = Some n, rfile = b\<rparr>"

definition get :: "string \<Rightarrow> request" where
  "get p = \<lparr>path = p, content_length = None, rfile = []\<rparr>"

definition caesar_platform :: "(string \<times> int) list \<Rightarrow> (string \<times> json) list \<Rightarrow> platform" where
  "caesar_platform ints jsons =
     example_platform ints jsons (contract_worker caesar_enc caesar_dec)"

text \<open>A worker process that exits with code 1 and touches no file.\<close>

definition failing_worker :: "string list \<Rightarrow> fs \<Rightarrow> run_result" where
  "failing_worker cmd t = Completed 1 t"

text \<open>A worker process that does not end.\<close>

definition hanging_worker :: "string list \<Rightarrow> fs \<Rightarrow> run_result" where
  "hanging_worker cmd t = Hangs"

subsection \<open>Notions the properties are stated with\<close>

text \<open>The response of a transform that succeeded.\<close>

definition result_response :: "platform \<Rightarrow> string \<Rightarrow> response" where
  "result_response P s =
     wfile_write (set_headers P ''application/json'')
       (JsonText (JObject [(''result'', JStr s)]))"

text \<open>
  What a handler makes of the run of \<open>cmd\<close> on the file system \<open>t2\<close>: it raises
  when the process cannot be started, never returns when the process does not end, and
  otherwise, whatever the exit code, reads \<^verbatim>\<open>/tmp/output.txt\<close> as the process left
  it and answers with its text (status 200), or raises when it cannot be read. The file
  system it leaves is the one the run left.
\<close>

definition follows_worker :: "platform \<Rightarrow> string list \<Rightarrow> fs \<Rightarrow> handled \<Rightarrow> bool" where
  "follows_worker P cmd t2 h =
     (case subprocess_run P cmd t2 of
        SpawnError e \<Rightarrow> reply h = Raised e \<and> files h = t2
      | Hangs \<Rightarrow> reply h = Hung \<and> files h = t2
      | Completed rc t3 \<Rightarrow>
          files h = t3 \<and>
          (case read_text (decode_text P) t3 ''/tmp/output.txt'' of
             Inl e \<Rightarrow> reply h = Raised e
           | Inr s \<Rightarrow>
               reply h = Sent (result_response P s) \<and> status (result_response P s) = 200))"

text \<open>The command line with its last argument, the mode code, replaced.\<close>

fun with_mode :: "string \<Rightarrow> event \<Rightarrow> event" where
  "with_mode m (Run cmd) = Run (butlast cmd @ [m])"
| "with_mode m (Open p k) = Open p k"

text \<open>The platform whose worker processes all exit with code \<open>c\<close>.\<close>

definition with_exit_code :: "int \<Rightarrow> platform \<Rightarrow> platform" where
  "with_exit_code c P =
     P\<lparr>subprocess_run :=
         (\<lambda>cmd t. case subprocess_run P cmd t of
                     SpawnError e \<Rightarrow> SpawnError e
                   | Completed rc t' \<Rightarrow> Completed c t'
                   | Hangs \<Rightarrow> Hangs)\<rparr>"



section \<open>Properties\<close>

subsection \<open>Shared lemmas\<close>

lemma do_POST_encrypt:
  "path r = ''/api/encrypt'' \<Longrightarrow> do_POST P t r = transform ''1'' P t r"
  by (simp add: do_POST_def transform_def transform_json_def run_worker_def request_json_def
      worker_cmd_def Let_def split: sum.splits prod.splits run_result.splits)

lemma do_POST_decrypt:
  "path r = ''/api/decrypt'' \<Longrightarrow> do_POST P t r = transform ''2'' P t r"
  by (simp add: do_POST_def transform_def transform_json_def run_worker_def request_json_def
      worker_cmd_def Let_def split: sum.splits prod.splits run_result.splits)

lemma do_POST_other:
  "path r \<noteq> ''/api/encrypt'' \<Longrightarrow> path r \<noteq> ''/api/decrypt'' \<Longrightarrow>
   do_POST P t r = \<lparr>reply = Sent (send_response P 404), files = t, events = []\<rparr>"
  by (simp add: do_POST_def)

lemma set_headers_eq:
  "set_headers P ct =
     \<lparr>status = 200,
      sent_headers =
        [(''Server'', version_string P), (''Date'', date_time_string P),
         (''Content-type'', ct), (''Access-Control-Allow-Origin'', ''*''),
         (''Access-Control-Allow-Methods'', ''GET, POST, OPTIONS''),
         (''Access-Control-Allow-Headers'', ''Content-Type'')],
      body = NoBody\<rparr>"
  by (simp add: set_headers_def send_header_def send_response_def)

lemmas handler_defs =
  do_POST_def do_GET_def do_OPTIONS_def int_of_header_def rfile_read_def open_write_def
  resolve_def read_text_def read_bytes_def path_exists_def path_isfile_def
  os_path_join_def lstrip_slash_def endswith_def
  set_headers_def send_header_def send_response_def wfile_write_def result_response_def

lemmas example_defs =
  example_platform_def caesar_platform_def example_fs_def table_def post_def get_def
  contract_worker_def failing_worker_def
  caesar_enc_def caesar_dec_def key_shift_def rotate_def capitals_def

lemma request_json_path: "request_json P (r\<lparr>path := p\<rparr>) = request_json P r"
  by (simp add: request_json_def cong: sum.case_cong)

lemma transform_path: "transform m P t (r\<lparr>path := p\<rparr>) = transform m P t r"
  by (simp add: transform_def request_json_path)

lemma request_json_worker:
  "request_json (P\<lparr>subprocess_run := w\<rparr>) r = request_json P r"
  by (simp add: request_json_def int_of_header_def cong: sum.case_cong option.case_cong)

lemma run_worker_reply:
  "(\<exists>e. reply (run_worker m P t k) = Raised e) \<or> reply (run_worker m P t k) = Hung \<or>
   (\<exists>s. reply (run_worker m P t k) = Sent (result_response P s))"
  by (auto simp add: run_worker_def Let_def result_response_def
      split: run_result.splits sum.splits)

lemma transform_json_reply:
  "(\<exists>e. reply (transform_json m P t data) = Raised e) \<or> reply (transform_json m P t data) = Hung \<or>
   (\<exists>s. reply (transform_json m P t data) = Sent (result_response P s))"
  using run_worker_reply [of m P]
  by (simp add: transform_json_def split: sum.splits prod.splits)

lemma transform_reply:
  "(\<exists>e. reply (transform m P t r) = Raised e) \<or> reply (transform m P t r) = Hung \<or>
   (\<exists>s. reply (transform m P t r) = Sent (result_response P s))"
  using transform_json_reply [of m P t]
  by (simp add: transform_def split: sum.splits)

lemma do_POST_reply:
  "(\<exists>e. reply (do_POST P t r) = Raised e) \<or> reply (do_POST P t r) = Hung \<or>
   (\<exists>s. reply (do_POST P t r) = Sent (result_response P s)) \<or>
   reply (do_POST P t r) = Sent (send_response P 404)"
proof -
  consider "path r = ''/api/encrypt''" | "path r = ''/api/decrypt''"
    | "path r \<noteq> ''/api/encrypt''" "path r \<noteq> ''/api/decrypt''"
    by blast
  then show ?thesis
  proof cases
    case 1
    then show ?thesis using transform_reply [of "''1''" P t r] by (auto simp add: do_POST_encrypt)
  next
    case 2
    then show ?thesis using transform_reply [of "''2''" P t r] by (auto simp add: do_POST_decrypt)
  next
    case 3
    then show ?thesis by (simp add: do_POST_other)
  qed
qed

lemma status_result_response: "status (result_response P s) = 200"
  by (simp add: result_response_def wfile_write_def set_headers_eq)

lemma do_POST_status:
  "status_of (reply (do_POST P t r)) = None \<or>
   status_of (reply (do_POST P t r)) = Some 200 \<or>
   status_of (reply (do_POST P t r)) = Some 404"
  using do_POST_reply [of P t r]
  by (auto simp add: status_result_response send_response_def)

lemma run_worker_events:
  "commands (events (run_worker m P t k)) = [worker_cmd (py_str (py_repr P) k) m] \<and>
   (opened (events (run_worker m P t k)) = [''/tmp/input.txt''] \<or>
    opened (events (run_worker m P t k)) = [''/tmp/input.txt'', ''/tmp/output.txt''])"
  by (simp add: run_worker_def Let_def split: run_result.splits sum.splits)

lemma dict_get_Inr:
  "dict_get data k d = Inr v \<Longrightarrow>
   \<exists>kvs. data = JObject kvs \<and> v = (case map_of kvs k of None \<Rightarrow> d | Some w \<Rightarrow> w)"
  by (cases data) auto

lemma transform_json_commands:
  assumes "cmd \<in> set (commands (events (transform_json m P t data)))"
  shows "\<exists>kvs. data = JObject kvs \<and>
           cmd = worker_cmd (case map_of kvs ''key'' of None \<Rightarrow> ''3''
                             | Some k \<Rightarrow> py_str (py_repr P) k) m \<and>
           commands (events (transform_json m P t data)) = [cmd]"
proof (cases data)
  case (JObject kvs)
  show ?thesis
    using assms run_worker_events [of m P]
    by (auto simp add: transform_json_def JObject digits.simps
        split: sum.splits prod.splits option.splits)
qed (use assms in \<open>simp_all add: transform_json_def split: sum.splits prod.splits\<close>)

lemma transform_commands:
  assumes "cmd \<in> set (commands (events (transform m P t r)))"
  shows "\<exists>kvs. request_json P r = Inr (JObject kvs) \<and>
           cmd = worker_cmd (case map_of kvs ''key'' of None \<Rightarrow> ''3''
                             | Some k \<Rightarrow> py_str (py_repr P) k) m \<and>
           commands (events (transform m P t r)) = [cmd]"
proof (cases "request_json P r")
  case (Inl e)
  with assms show ?thesis by (simp add: transform_def)
next
  case (Inr data)
  with assms transform_json_commands [of cmd m P t data] show ?thesis
    by (simp add: transform_def)
qed

lemma run_worker_opened:
  "set (opened (events (run_worker m P t k))) \<subseteq> {''/tmp/input.txt'', ''/tmp/output.txt''} \<and>
   ''/tmp/input.txt'' \<in> set (opened (events (run_worker m P t k)))"
  using run_worker_events [of m P t k] by auto

lemma transform_json_opened:
  "set (opened (events (transform_json m P t data))) \<subseteq> {''/tmp/input.txt'', ''/tmp/output.txt''} \<and>
   (commands (events (transform_json m P t data)) = [] \<or>
    ''/tmp/input.txt'' \<in> set (opened (events (transform_json m P t data))))"
  using run_worker_opened [of m P]
  by (simp add: transform_json_def split: sum.splits prod.splits)

lemma transform_opened:
  "set (opened (events (transform m P t r))) \<subseteq> {''/tmp/input.txt'', ''/tmp/output.txt''} \<and>
   (commands (events (transform m P t r)) = [] \<or>
    ''/tmp/input.txt'' \<in> set (opened (events (transform m P t r))))"
  using transform_json_opened [of m P t]
  by (simp add: transform_def split: sum.splits)

lemma do_POST_opened:
  "set (opened (events (do_POST P t r))) \<subseteq> {''/tmp/input.txt'', ''/tmp/output.txt''} \<and>
   (commands (events (do_POST P t r)) = [] \<or>
    ''/tmp/input.txt'' \<in> set (opened (events (do_POST P t r))))"
proof -
  consider "path r = ''/api/encrypt''" | "path r = ''/api/decrypt''"
    | "path r \<noteq> ''/api/encrypt''" "path r \<noteq> ''/api/decrypt''"
    by blast
  then show ?thesis
  proof cases
    case 1
    then show ?thesis using transform_opened [of "''1''" P t r] by (simp add: do_POST_encrypt)
  next
    case 2
    then show ?thesis using transform_opened [of "''2''" P t r] by (simp add: do_POST_decrypt)
  next
    case 3
    then show ?thesis by (simp add: do_POST_other)
  qed
qed

lemma do_POST_command_paths:
  assumes "cmd \<in> set (commands (events (do_POST P t r)))"
  shows "take 2 (drop 4 cmd) = [''/tmp/input.txt'', ''/tmp/output.txt'']"
proof -
  consider "path r = ''/api/encrypt''" | "path r = ''/api/decrypt''"
    | "path r \<noteq> ''/api/encrypt''" "path r \<noteq> ''/api/decrypt''"
    by blast
  then show ?thesis
  proof cases
    case 1
    then show ?thesis
      using assms transform_commands [of cmd "''1''" P t r]
      by (auto simp add: do_POST_encrypt worker_cmd_def)
  next
    case 2
    then show ?thesis
      using assms transform_commands [of cmd "''2''" P t r]
      by (auto simp add: do_POST_decrypt worker_cmd_def)
  next
    case 3
    then show ?thesis using assms by (simp add: do_POST_other)
  qed
qed




lemma resolve_file:
  assumes "resolve t p = Inr loc" and "t loc = Some (File b)"
  shows "path_exists t p" and "path_isfile t p" and "read_bytes t p = Inr b"
  using assms by (simp_all add: path_exists_def path_isfile_def read_bytes_def)

lemma path_isfile_read:
  assumes "path_isfile t p"
  shows "\<exists>b. read_bytes t p = Inr b"
  using assms
  by (auto simp add: path_isfile_def read_bytes_def split: sum.splits option.splits node.splits)

lemma do_GET_reply:
  "(\<exists>ct b. reply (do_GET P t r) = Sent (wfile_write (set_headers P ct) b)) \<or>
   reply (do_GET P t r) = Sent (send_response P 404)"
proof (cases "path r = ''/api/status''")
  case True
  then show ?thesis by (auto simp add: do_GET_def)
next
  case False
  let ?p = "os_path_join (getcwd P) (lstrip_slash (path r))"
  show ?thesis
  proof (cases "path_exists t ?p \<and> path_isfile t ?p")
    case True
    then obtain b where "read_bytes t ?p = Inr b" using path_isfile_read by blast
    with True False show ?thesis by (auto simp add: do_GET_def Let_def)
  next
    case no: False
    with False show ?thesis by (auto simp add: do_GET_def Let_def)
  qed
qed


lemma resolve_input:
  "resolve t ''/tmp/input.txt'' =
     (if t [''tmp''] = Some Dir then Inr [''tmp'', ''input.txt'']
      else if t [''tmp''] = None then Inl FileNotFoundError else Inl NotADirectoryError)"
  by (simp add: resolve_def)


lemma open_write_input:
  assumes "open_write t ''/tmp/input.txt'' = Inr (f, t1)"
  shows "f = [''tmp'', ''input.txt''] \<and> t1 = t(f \<mapsto> File [])"
  using assms by (auto simp add: open_write_def resolve_input split: if_splits)

lemma file_write_Inr:
  assumes "file_write enc t f v = Inr t2"
  shows "\<exists>x b. v = JStr x \<and> enc x = Inr b \<and> t2 = t(f \<mapsto> File b)"
  using assms by (cases v) (auto split: sum.splits)

lemma transform_json_missing_text:
  assumes "map_of kvs ''text'' = None"
  shows "transform_json m P t (JObject ((''text'', JStr []) # kvs)) = transform_json m P t (JObject kvs)"
proof -
  have a: "dict_get (JObject ((''text'', JStr []) # kvs)) ''text'' (JStr []) =
      dict_get (JObject kvs) ''text'' (JStr [])"
    using assms by simp
  have b: "dict_get (JObject ((''text'', JStr []) # kvs)) ''key'' (JInt 3) =
      dict_get (JObject kvs) ''key'' (JInt 3)"
    by simp
  show ?thesis unfolding transform_json_def a b ..
qed

lemma with_exit_code_fields:
  "py_repr (with_exit_code c P) = py_repr P"
  "encode_text (with_exit_code c P) = encode_text P"
  "decode_text (with_exit_code c P) = decode_text P"
  "set_headers (with_exit_code c P) ct = set_headers P ct"
  "request_json (with_exit_code c P) r = request_json P r"
  by (simp_all add: with_exit_code_def set_headers_eq request_json_worker)

lemma run_worker_exit_code: "run_worker m (with_exit_code c P) t k = run_worker m P t k"
proof -
  have "subprocess_run (with_exit_code c P) cmd t =
      (case subprocess_run P cmd t of SpawnError e \<Rightarrow> SpawnError e
       | Completed rc t' \<Rightarrow> Completed c t' | Hangs \<Rightarrow> Hangs)" for cmd
    by (simp add: with_exit_code_def)
  then show ?thesis
    unfolding run_worker_def Let_def with_exit_code_fields
    by (simp split: run_result.splits)
qed

lemma transform_json_exit_code:
  "transform_json m (with_exit_code c P) t data = transform_json m P t data"
  unfolding transform_json_def run_worker_exit_code with_exit_code_fields ..

lemma transform_exit_code: "transform m (with_exit_code c P) t r = transform m P t r"
  unfolding transform_def transform_json_exit_code with_exit_code_fields ..

lemma do_POST_exit_code: "do_POST (with_exit_code c P) t r = do_POST P t r"
proof -
  consider "path r = ''/api/encrypt''" | "path r = ''/api/decrypt''"
    | "path r \<noteq> ''/api/encrypt''" "path r \<noteq> ''/api/decrypt''"
    by blast
  then show ?thesis
  proof cases
    case 1
    then show ?thesis by (simp add: do_POST_encrypt transform_exit_code)
  next
    case 2
    then show ?thesis by (simp add: do_POST_decrypt transform_exit_code)
  next
    case 3
    then show ?thesis by (simp add: do_POST_other send_response_def with_exit_code_def)
  qed
qed

lemma universal_newlines_id:
  "CHR 0x0D \<notin> set x \<Longrightarrow> universal_newlines x = x"
  by (induction x rule: universal_newlines.induct) auto

lemma request_json_whole_body:
  assumes "content_length r = Some h" and "py_int P h = Inr (int (length (rfile r)))"
  shows "request_json P r =
           (case decode_utf8 P (rfile r) of Inl e \<Rightarrow> Inl e | Inr s \<Rightarrow> json_loads P s)"
  using assms by (simp add: request_json_def int_of_header_def rfile_read_def)







lemma result_response_inject: "result_response P y = result_response P z \<longleftrightarrow> y = z"
  by (simp add: result_response_def wfile_write_def set_headers_eq)

lemma run_worker_follows:
  "follows_worker P (worker_cmd (py_str (py_repr P) k) m) t2 (run_worker m P t2 k)"
  by (simp add: follows_worker_def run_worker_def Let_def result_response_def
      wfile_write_def set_headers_eq split: run_result.splits sum.splits)

lemma transform_json_written:
  assumes "open_write t ''/tmp/input.txt'' = Inr (f, t1)"
    and "dict_get (JObject kvs) ''text'' (JStr []) = Inr (JStr x)"
    and "encode_text P x = Inr b"
  shows "transform_json m P t (JObject kvs) =
           run_worker m P (t1(f \<mapsto> File b))
             (case map_of kvs ''key'' of None \<Rightarrow> JInt 3 | Some v \<Rightarrow> v)"
  using assms by (simp add: transform_json_def)

lemma key_argument:
  "py_str (py_repr P) (case map_of kvs ''key'' of None \<Rightarrow> JInt 3 | Some v \<Rightarrow> v) =
     (case map_of kvs ''key'' of None \<Rightarrow> ''3'' | Some k \<Rightarrow> py_str (py_repr P) k)"
  by (simp add: digits.simps split: option.splits)

lemma transform_json_runs:
  assumes "open_write t ''/tmp/input.txt'' = Inr (f, t1)"
    and "dict_get (JObject kvs) ''text'' (JStr []) = Inr (JStr x)"
    and "encode_text P x = Inr b"
  shows "commands (events (transform_json m P t (JObject kvs))) =
           [worker_cmd (case map_of kvs ''key'' of None \<Rightarrow> ''3''
                        | Some k \<Rightarrow> py_str (py_repr P) k) m]"
    and "follows_worker P
           (worker_cmd (case map_of kvs ''key'' of None \<Rightarrow> ''3''
                        | Some k \<Rightarrow> py_str (py_repr P) k) m)
           (t1(f \<mapsto> File b)) (transform_json m P t (JObject kvs))"
  using run_worker_events [of m P]
    run_worker_follows [of P "case map_of kvs ''key'' of None \<Rightarrow> JInt 3 | Some v \<Rightarrow> v" m
      "t1(f \<mapsto> File b)"]
  by (simp_all add: transform_json_written [OF assms] key_argument)

lemma transform_json_follows:
  assumes "cmd \<in> set (commands (events (transform_json m P t data)))"
  shows "\<exists>t2 b. t2 [''tmp'', ''input.txt''] = Some (File b) \<and>
           follows_worker P cmd t2 (transform_json m P t data)"
proof (cases "open_write t ''/tmp/input.txt''")
  case (Inl e)
  with assms show ?thesis by (simp add: transform_json_def)
next
  case (Inr ft)
  obtain f t1 where ft: "ft = (f, t1)" by (cases ft)
  have f: "f = [''tmp'', ''input.txt'']" using open_write_input Inr ft by blast
  show ?thesis
  proof (cases "dict_get data ''text'' (JStr [])")
    case (Inl e)
    with assms Inr ft show ?thesis by (simp add: transform_json_def)
  next
    case tv: (Inr v)
    show ?thesis
    proof (cases "file_write (encode_text P) t1 f v")
      case (Inl e)
      with assms Inr ft tv show ?thesis by (simp add: transform_json_def)
    next
      case w: (Inr t2)
      then obtain b where b: "t2 = t1(f \<mapsto> File b)" using file_write_Inr by blast
      show ?thesis
      proof (cases "dict_get data ''key'' (JInt 3)")
        case (Inl e)
        with assms Inr ft tv w show ?thesis by (simp add: transform_json_def)
      next
        case k: (Inr k)
        have eq: "transform_json m P t data = run_worker m P t2 k"
          using Inr ft tv w k by (simp add: transform_json_def)
        have c: "cmd = worker_cmd (py_str (py_repr P) k) m"
          using assms run_worker_events [of m P t2 k] by (simp add: eq)
        have "t2 [''tmp'', ''input.txt''] = Some (File b)" using b f by simp
        moreover have "follows_worker P cmd t2 (transform_json m P t data)"
          using run_worker_follows [of P k m t2] by (simp add: eq c)
        ultimately show ?thesis by blast
      qed
    qed
  qed
qed

lemma do_POST_follows:
  assumes "cmd \<in> set (commands (events (do_POST P t r)))"
  shows "\<exists>t2 b. t2 [''tmp'', ''input.txt''] = Some (File b) \<and>
           follows_worker P cmd t2 (do_POST P t r)"
proof -
  have tr: "\<exists>t2 b. t2 [''tmp'', ''input.txt''] = Some (File b) \<and>
           follows_worker P cmd t2 (transform m P t r)"
    if "cmd \<in> set (commands (events (transform m P t r)))" for m
  proof (cases "request_json P r")
    case (Inl e)
    with that show ?thesis by (simp add: transform_def)
  next
    case (Inr data)
    with that transform_json_follows [of cmd m P t data] show ?thesis by (simp add: transform_def)
  qed
  consider "path r = ''/api/encrypt''" | "path r = ''/api/decrypt''"
    | "path r \<noteq> ''/api/encrypt''" "path r \<noteq> ''/api/decrypt''"
    by blast
  then show ?thesis
  proof cases
    case 1
    then show ?thesis using assms tr [of "''1''"] by (simp add: do_POST_encrypt)
  next
    case 2
    then show ?thesis using assms tr [of "''2''"] by (simp add: do_POST_decrypt)
  next
    case 3
    then show ?thesis using assms by (simp add: do_POST_other)
  qed
qed


lemma length_serve_forever: "length (serve_forever P t reqs) = length reqs"
  by (induction P t reqs rule: serve_forever.induct) (auto simp add: Let_def)

lemma serve_forever_status:
  assumes "path r = ''/api/status''"
  shows "last (serve_forever P t (reqs @ [(GET, r)])) =
           (if Some Hung \<in> set (serve_forever P t reqs) then None
            else Some (Sent (wfile_write (set_headers P ''application/json'')
                   (JsonText (JObject [(''status'', JStr ''running'')])))))"
proof (induction reqs arbitrary: t)
  case Nil
  show ?case using assms by (simp add: do_GET_def)
next
  case (Cons q reqs)
  obtain c r' where q: "q = (c, r')" by (cases q)
  show ?case
  proof (cases "reply (handle P t c r') = Hung")
    case True
    then show ?thesis by (simp add: q Let_def last_map)
  next
    case False
    have ne: "serve_forever P (files (handle P t c r')) (reqs @ [(GET, r)]) \<noteq> []"
      using length_serve_forever [of P "files (handle P t c r')" "reqs @ [(GET, r)]"]
      by auto
    show ?thesis
      using False ne Cons.IH [of "files (handle P t c r')"]
      by (auto simp add: q Let_def)
  qed
qed

lemma body_result_response: "body (result_response P s) = JsonText (JObject [(''result'', JStr s)])"
  by (simp add: result_response_def wfile_write_def)

subsection \<open>Scratch files\<close>

text \<open>
  Claim C1, as amended. The scratch paths do not depend on the request: every file a
  POST handler opens is \<^verbatim>\<open>/tmp/input.txt\<close> or \<^verbatim>\<open>/tmp/output.txt\<close>, and every command
  line it runs names these two paths, the input file having been opened before. So any
  two transform requests use the same two paths.
\<close>

theorem scratch_paths_fixed:
  "set (opened (events (do_POST P t r))) \<subseteq> {''/tmp/input.txt'', ''/tmp/output.txt''} \<and>
   (\<forall>cmd \<in> set (commands (events (do_POST P t r))).
      ''/tmp/input.txt'' \<in> set (opened (events (do_POST P t r))) \<and>
      take 2 (drop 4 cmd) = [''/tmp/input.txt'', ''/tmp/output.txt''])"
  using do_POST_opened [of P t r] do_POST_command_paths [of _ P t r] by auto

text \<open>
  The claim as stated fails: two requests with different texts open the same two files.
\<close>

theorem scratch_paths_shared_counterexample:
  \<open>set (opened (events (do_POST
      (caesar_platform [(''15'', 15)]
         [(''{"text": "AAA"}'', JObject [(''text'', JStr ''AAA'')]),
          (''{"text": "BBB"}'', JObject [(''text'', JStr ''BBB'')])])
      example_fs (post ''/api/encrypt'' ''15'' ''{"text": "AAA"}'')))) \<inter>
   set (opened (events (do_POST
      (caesar_platform [(''15'', 15)]
         [(''{"text": "AAA"}'', JObject [(''text'', JStr ''AAA'')]),
          (''{"text": "BBB"}'', JObject [(''text'', JStr ''BBB'')])])
      example_fs (post ''/api/encrypt'' ''15'' ''{"text": "BBB"}'')))) =
   {''/tmp/input.txt'', ''/tmp/output.txt''}\<close>
  by (simp add: handler_defs example_defs digits.simps)

theorem scratch_paths_fixed_witness:
  \<open>opened (events (do_POST
      (caesar_platform [(''15'', 15)] [(''{"text": "AAA"}'', JObject [(''text'', JStr ''AAA'')])])
      example_fs (post ''/api/decrypt'' ''15'' ''{"text": "AAA"}''))) =
     [''/tmp/input.txt'', ''/tmp/output.txt''] \<and>
   map (\<lambda>cmd. take 2 (drop 4 cmd)) (commands (events (do_POST
      (caesar_platform [(''15'', 15)] [(''{"text": "AAA"}'', JObject [(''text'', JStr ''AAA'')])])
      example_fs (post ''/api/decrypt'' ''15'' ''{"text": "AAA"}'')))) =
     [[''/tmp/input.txt'', ''/tmp/output.txt'']]\<close>
  using scratch_paths_fixed [of
      \<open>caesar_platform [(''15'', 15)] [(''{"text": "AAA"}'', JObject [(''text'', JStr ''AAA'')])]\<close>
      example_fs \<open>post ''/api/decrypt'' ''15'' ''{"text": "AAA"}''\<close>]
  by (simp add: handler_defs example_defs digits.simps)

subsection \<open>Static files\<close>

text \<open>
  Claim C2, as amended. A GET request for anything but \<^verbatim>\<open>/api/status\<close> is answered
  from the path joined onto the working directory, which is not confined to it: when the
  joined path resolves to a regular file, at any location \<open>loc\<close> of the file system, the
  answer is 200 with the bytes of that file. The status of a GET response is always 200
  or 404, so never 403.
\<close>

theorem static_file_unconfined:
  assumes "path r \<noteq> ''/api/status''"
    and "resolve t (os_path_join (getcwd P) (lstrip_slash (path r))) = Inr loc"
    and "t loc = Some (File b)"
  shows "(\<exists>rsp. reply (do_GET P t r) = Sent rsp \<and> status rsp = 200 \<and> body rsp = Bytes b) \<and>
         (status_of (reply (do_GET Q u q)) = Some 200 \<or>
          status_of (reply (do_GET Q u q)) = Some 404)"
proof -
  have "status_of (reply (do_GET Q u q)) = Some 200 \<or>
        status_of (reply (do_GET Q u q)) = Some 404"
    using do_GET_reply [of Q u q]
    by (auto simp add: wfile_write_def set_headers_eq send_response_def)
  moreover have "\<exists>rsp. reply (do_GET P t r) = Sent rsp \<and> status rsp = 200 \<and> body rsp = Bytes b"
    using assms(1) resolve_file [OF assms(2) assms(3)]
    by (simp add: do_GET_def Let_def wfile_write_def set_headers_eq)
  ultimately show ?thesis by blast
qed

text \<open>
  The claim as stated fails: with the working directory \<^verbatim>\<open>/srv/app\<close>, the request path
  \<^verbatim>\<open>/../../etc/passwd\<close> resolves to \<^verbatim>\<open>/etc/passwd\<close>, outside the working
  directory, and the file is served with status 200.
\<close>

theorem traversal_served_counterexample:
  "resolve example_fs ''/srv/app/../../etc/passwd'' = Inr [''etc'', ''passwd''] \<and>
   do_GET (caesar_platform [] []) example_fs (get ''/../../etc/passwd'') =
     \<lparr>reply = Sent
        \<lparr>status = 200,
         sent_headers = [(''Server'', ''BaseHTTP/0.6 Python/3.11.4''),
                         (''Date'', ''Tue, 03 Nov 2026 12:00:00 GMT''),
                         (''Content-type'', ''text/plain''),
                         (''Access-Control-Allow-Origin'', ''*''),
                         (''Access-Control-Allow-Methods'', ''GET, POST, OPTIONS''),
                         (''Access-Control-Allow-Headers'', ''Content-Type'')],
         body = Bytes ''root:x:0:0:root:/root:/bin/sh''\<rparr>,
      files = example_fs,
      events = [Open ''/srv/app/../../etc/passwd'' ''rb'']\<rparr>"
  by (simp add: handler_defs example_defs)

theorem static_file_unconfined_witness:
  "getcwd (caesar_platform [] []) = ''/srv/app'' \<and>
   resolve example_fs ''/srv/app/../secret.txt'' = Inr [''srv'', ''secret.txt''] \<and>
   (\<exists>rsp. reply (do_GET (caesar_platform [] []) example_fs (get ''/../secret.txt'')) = Sent rsp \<and>
      status rsp = 200 \<and> body rsp = Bytes ''s3cret'')"
proof -
  let ?P = "caesar_platform [] []"
  have p: "path (get ''/../secret.txt'') \<noteq> ''/api/status''"
    by (simp add: get_def)
  have j: "os_path_join (getcwd ?P) (lstrip_slash (path (get ''/../secret.txt''))) =
      ''/srv/app/../secret.txt''"
    by (simp add: handler_defs example_defs)
  have r: "resolve example_fs ''/srv/app/../secret.txt'' = Inr [''srv'', ''secret.txt'']"
    by (simp add: handler_defs example_defs)
  have f: "example_fs [''srv'', ''secret.txt''] = Some (File ''s3cret'')"
    by (simp add: example_defs)
  have c: "getcwd ?P = ''/srv/app''"
    by (simp add: example_defs)
  from static_file_unconfined [OF p, of example_fs ?P, unfolded j, OF r f] r c
  show ?thesis by blast
qed

subsection \<open>Bodies that are not the expected JSON\<close>

text \<open>
  Claim C3, as amended. For a POST to \<^verbatim>\<open>/api/encrypt\<close> or \<^verbatim>\<open>/api/decrypt\<close>: when
  the body cannot be read, decoded and parsed as JSON, the exception leaves the handler
  before any file is opened or any process is run, and no response is sent, so there is
  no status 400; the handler never answers 400. A JSON object without \<^verbatim>\<open>text\<close> is not
  refused: it is handled exactly as the same object with \<^verbatim>\<open>"text": ""\<close>. Once the input
  file is opened and the empty text written to it, the worker is run, once, with
  \<^verbatim>\<open>str\<close> of the key (\<open>3\<close> when the key is missing too) and the mode code of the
  path, and the answer is what \<open>follows_worker\<close> says of that run.
\<close>

theorem body_not_validated:
  assumes "path r = ''/api/encrypt'' \<or> path r = ''/api/decrypt''"
  shows "(request_json P r = Inl e \<longrightarrow>
            do_POST P t r = \<lparr>reply = Raised e, files = t, events = []\<rparr>) \<and>
         status_of (reply (do_POST P t r)) \<noteq> Some 400 \<and>
         (request_json P r = Inr (JObject kvs) \<and> map_of kvs ''text'' = None \<and>
          path r' = path r \<and> request_json P r' = Inr (JObject ((''text'', JStr []) # kvs)) \<longrightarrow>
            do_POST P t r = do_POST P t r') \<and>
         (request_json P r = Inr (JObject kvs) \<and> map_of kvs ''text'' = None \<and>
          open_write t ''/tmp/input.txt'' = Inr (f, t1) \<and> encode_text P [] = Inr b \<longrightarrow>
            commands (events (do_POST P t r)) =
              [[''java'', ''-cp'', ''../bin'', ''WebAppLauncher'',
                ''/tmp/input.txt'', ''/tmp/output.txt'',
                (case map_of kvs ''key'' of None \<Rightarrow> ''3''
                 | Some k \<Rightarrow> py_str (py_repr P) k),
                (if path r = ''/api/encrypt'' then ''1'' else ''2'')]] \<and>
            follows_worker P
              [''java'', ''-cp'', ''../bin'', ''WebAppLauncher'',
               ''/tmp/input.txt'', ''/tmp/output.txt'',
               (case map_of kvs ''key'' of None \<Rightarrow> ''3''
                | Some k \<Rightarrow> py_str (py_repr P) k),
               (if path r = ''/api/encrypt'' then ''1'' else ''2'')]
              (t1(f \<mapsto> File b)) (do_POST P t r))"
proof -
  have "status_of (reply (do_POST P t r)) \<noteq> Some 400"
    using do_POST_status [of P t r] by auto
  moreover have "do_POST P t r = \<lparr>reply = Raised e, files = t, events = []\<rparr>"
    if "request_json P r = Inl e"
    using assms that by (auto simp add: do_POST_encrypt do_POST_decrypt transform_def)
  moreover have "do_POST P t r = do_POST P t r'"
    if "request_json P r = Inr (JObject kvs)" "map_of kvs ''text'' = None"
      "path r' = path r" "request_json P r' = Inr (JObject ((''text'', JStr []) # kvs))"
    using assms that
    by (auto simp add: do_POST_encrypt do_POST_decrypt transform_def transform_json_missing_text)
  moreover have "commands (events (do_POST P t r)) =
              [[''java'', ''-cp'', ''../bin'', ''WebAppLauncher'',
                ''/tmp/input.txt'', ''/tmp/output.txt'',
                (case map_of kvs ''key'' of None \<Rightarrow> ''3''
                 | Some k \<Rightarrow> py_str (py_repr P) k),
                (if path r = ''/api/encrypt'' then ''1'' else ''2'')]] \<and>
            follows_worker P
              [''java'', ''-cp'', ''../bin'', ''WebAppLauncher'',
               ''/tmp/input.txt'', ''/tmp/output.txt'',
               (case map_of kvs ''key'' of None \<Rightarrow> ''3''
                | Some k \<Rightarrow> py_str (py_repr P) k),
               (if path r = ''/api/encrypt'' then ''1'' else ''2'')]
              (t1(f \<mapsto> File b)) (do_POST P t r)"
    if j: "request_json P r = Inr (JObject kvs)" and n: "map_of kvs ''text'' = None"
      and w: "open_write t ''/tmp/input.txt'' = Inr (f, t1)" and e: "encode_text P [] = Inr b"
  proof -
    have x: "dict_get (JObject kvs) ''text'' (JStr []) = Inr (JStr [])"
      using n by simp
    show ?thesis
    proof (cases "path r = ''/api/encrypt''")
      case True
      then show ?thesis
        using transform_json_runs [OF w x e, of "''1''"] j
        by (simp add: do_POST_encrypt transform_def worker_cmd_def)
    next
      case False
      with assms have "path r = ''/api/decrypt''" by simp
      then show ?thesis
        using transform_json_runs [OF w x e, of "''2''"] j
        by (simp add: do_POST_decrypt transform_def worker_cmd_def)
    qed
  qed
  ultimately show ?thesis by blast
qed

text \<open>
  The claim as stated fails on a body with no \<^verbatim>\<open>text\<close> field: the worker is run on
  the empty text and the answer has status 200.
\<close>

theorem missing_text_accepted_counterexample:
  \<open>do_POST (caesar_platform [(''10'', 10)] [(''{"key": 5}'', JObject [(''key'', JInt 5)])])
      example_fs (post ''/api/encrypt'' ''10'' ''{"key": 5}'') =
    \<lparr>reply = Sent
       \<lparr>status = 200,
        sent_headers = [(''Server'', ''BaseHTTP/0.6 Python/3.11.4''),
                        (''Date'', ''Tue, 03 Nov 2026 12:00:00 GMT''),
                        (''Content-type'', ''application/json''),
                        (''Access-Control-Allow-Origin'', ''*''),
                        (''Access-Control-Allow-Methods'', ''GET, POST, OPTIONS''),
                        (''Access-Control-Allow-Headers'', ''Content-Type'')],
        body = JsonText (JObject [(''result'', JStr [])])\<rparr>,
     files = example_fs([''tmp'', ''input.txt''] \<mapsto> File [],
                        [''tmp'', ''output.txt''] \<mapsto> File []),
     events = [Open ''/tmp/input.txt'' ''w'',
               Run [''java'', ''-cp'', ''../bin'', ''WebAppLauncher'',
                    ''/tmp/input.txt'', ''/tmp/output.txt'', ''5'', ''1''],
               Open ''/tmp/output.txt'' ''r'']\<rparr>\<close>
  by (simp add: handler_defs example_defs digits.simps)

theorem body_not_validated_witness:
  \<open>request_json (caesar_platform [(''9'', 9)] []) (post ''/api/decrypt'' ''9'' ''{"text": '') =
     Inl JSONDecodeError \<and>
   do_POST (caesar_platform [(''9'', 9)] []) example_fs (post ''/api/decrypt'' ''9'' ''{"text": '') =
     \<lparr>reply = Raised JSONDecodeError, files = example_fs, events = []\<rparr> \<and>
   request_json (caesar_platform [(''2'', 2)] [(''{}'', JObject [])])
     (post ''/api/decrypt'' ''2'' ''{}'') = Inr (JObject []) \<and>
   commands (events (do_POST (caesar_platform [(''2'', 2)] [(''{}'', JObject [])]) example_fs
     (post ''/api/decrypt'' ''2'' ''{}''))) =
     [[''java'', ''-cp'', ''../bin'', ''WebAppLauncher'',
       ''/tmp/input.txt'', ''/tmp/output.txt'', ''3'', ''2'']]\<close>
proof -
  let ?P = "caesar_platform [(''9'', 9)] []"
  let ?r = \<open>post ''/api/decrypt'' ''9'' ''{"text": ''\<close>
  let ?Q = "caesar_platform [(''2'', 2)] [(''{}'', JObject [])]"
  let ?q = "post ''/api/decrypt'' ''2'' ''{}''"
  have p: "path ?r = ''/api/encrypt'' \<or> path ?r = ''/api/decrypt''"
    by (simp add: post_def)
  have j: "request_json ?P ?r = Inl JSONDecodeError"
    by (simp add: request_json_def handler_defs example_defs)
  have first: "do_POST ?P example_fs ?r =
      \<lparr>reply = Raised JSONDecodeError, files = example_fs, events = []\<rparr>"
    using body_not_validated [OF p, of ?P JSONDecodeError example_fs] j by blast
  have p2: "path ?q = ''/api/encrypt'' \<or> path ?q = ''/api/decrypt''"
    by (simp add: post_def)
  have d: "path ?q \<noteq> ''/api/encrypt''"
    by (simp add: post_def)
  have all: "request_json ?Q ?q = Inr (JObject []) \<and> map_of [] ''text'' = (None :: json option) \<and>
      open_write example_fs ''/tmp/input.txt'' =
        Inr ([''tmp'', ''input.txt''], example_fs([''tmp'', ''input.txt''] \<mapsto> File [])) \<and>
      encode_text ?Q [] = Inr []"
    by (simp add: request_json_def handler_defs example_defs)
  from body_not_validated [OF p2, of ?Q JSONDecodeError example_fs "[]" ?q
      "[''tmp'', ''input.txt'']" "example_fs([''tmp'', ''input.txt''] \<mapsto> File [])" "[]",
      THEN conjunct2, THEN conjunct2, THEN conjunct2, rule_format, OF all, THEN conjunct1]
  have second: "commands (events (do_POST ?Q example_fs ?q)) =
     [[''java'', ''-cp'', ''../bin'', ''WebAppLauncher'',
       ''/tmp/input.txt'', ''/tmp/output.txt'', ''3'', ''2'']]"
    using d by simp
  from j first all second show ?thesis by blast
qed

subsection \<open>The exit code of the worker\<close>

text \<open>
  Claim C4, as amended. The exit code of the worker process is ignored: a POST handler
  does the same, whatever exit code the process returns. When the handler has run the
  process and the process has returned, with any exit code, the handler reads
  \<^verbatim>\<open>/tmp/output.txt\<close> as the process left it and answers with status 200 and the text
  of the file as the result, or raises, sending nothing, when the file cannot be read or
  decoded. It never answers 500. It removes no scratch file: the input file was there
  before the run, and the file system the handler leaves is the one the run left. (When
  the process cannot be started the handler raises, and when it does not end the handler
  does not return.)
\<close>

theorem exit_code_ignored:
  "do_POST (with_exit_code c P) t r = do_POST P t r \<and>
   status_of (reply (do_POST P t r)) \<noteq> Some 500 \<and>
   (\<forall>cmd \<in> set (commands (events (do_POST P t r))).
      \<exists>t2 b. t2 [''tmp'', ''input.txt''] = Some (File b) \<and>
        (case subprocess_run P cmd t2 of
           SpawnError e \<Rightarrow> reply (do_POST P t r) = Raised e \<and> files (do_POST P t r) = t2
         | Hangs \<Rightarrow> reply (do_POST P t r) = Hung \<and> files (do_POST P t r) = t2
         | Completed rc t3 \<Rightarrow>
             files (do_POST P t r) = t3 \<and>
             (case read_text (decode_text P) t3 ''/tmp/output.txt'' of
                Inl e \<Rightarrow> reply (do_POST P t r) = Raised e
              | Inr s \<Rightarrow>
                  (\<exists>rsp. reply (do_POST P t r) = Sent rsp \<and> status rsp = 200 \<and>
                     body rsp = JsonText (JObject [(''result'', JStr s)])))))"
proof -
  have "status_of (reply (do_POST P t r)) \<noteq> Some 500"
    using do_POST_status [of P t r] by auto
  moreover have "\<exists>t2 b. t2 [''tmp'', ''input.txt''] = Some (File b) \<and>
        (case subprocess_run P cmd t2 of
           SpawnError e \<Rightarrow> reply (do_POST P t r) = Raised e \<and> files (do_POST P t r) = t2
         | Hangs \<Rightarrow> reply (do_POST P t r) = Hung \<and> files (do_POST P t r) = t2
         | Completed rc t3 \<Rightarrow>
             files (do_POST P t r) = t3 \<and>
             (case read_text (decode_text P) t3 ''/tmp/output.txt'' of
                Inl e \<Rightarrow> reply (do_POST P t r) = Raised e
              | Inr s \<Rightarrow>
                  (\<exists>rsp. reply (do_POST P t r) = Sent rsp \<and> status rsp = 200 \<and>
                     body rsp = JsonText (JObject [(''result'', JStr s)]))))"
    if "cmd \<in> set (commands (events (do_POST P t r)))" for cmd
  proof -
    from do_POST_follows [OF that] obtain t2 b
      where inp: "t2 [''tmp'', ''input.txt''] = Some (File b)"
        and fw: "follows_worker P cmd t2 (do_POST P t r)"
      by blast
    from fw have "case subprocess_run P cmd t2 of
           SpawnError e \<Rightarrow> reply (do_POST P t r) = Raised e \<and> files (do_POST P t r) = t2
         | Hangs \<Rightarrow> reply (do_POST P t r) = Hung \<and> files (do_POST P t r) = t2
         | Completed rc t3 \<Rightarrow>
             files (do_POST P t r) = t3 \<and>
             (case read_text (decode_text P) t3 ''/tmp/output.txt'' of
                Inl e \<Rightarrow> reply (do_POST P t r) = Raised e
              | Inr s \<Rightarrow>
                  (\<exists>rsp. reply (do_POST P t r) = Sent rsp \<and> status rsp = 200 \<and>
                     body rsp = JsonText (JObject [(''result'', JStr s)])))"
      by (auto simp add: follows_worker_def body_result_response
          split: run_result.splits sum.splits)
    with inp show ?thesis by blast
  qed
  ultimately show ?thesis
    using do_POST_exit_code [of c P t r] by blast
qed

text \<open>
  The claim as stated fails: a worker that exits with code 1 and writes nothing (as the
  Java launcher does when it cannot load the class) is followed by a 200 answer that
  carries what an earlier run left in \<^verbatim>\<open>/tmp/output.txt\<close>, and both scratch files
  remain.
\<close>

theorem failed_worker_answers_200_counterexample:
  \<open>failing_worker
      [''java'', ''-cp'', ''../bin'', ''WebAppLauncher'',
       ''/tmp/input.txt'', ''/tmp/output.txt'', ''3'', ''1'']
      (example_fs([''tmp'', ''output.txt''] \<mapsto> File ''OLD'',
                  [''tmp'', ''input.txt''] \<mapsto> File ''HELLO'')) =
     Completed 1 (example_fs([''tmp'', ''output.txt''] \<mapsto> File ''OLD'',
                             [''tmp'', ''input.txt''] \<mapsto> File ''HELLO'')) \<and>
   do_POST
      (example_platform [(''27'', 27)]
         [(''{"text": "HELLO", "key": 3}'', JObject [(''text'', JStr ''HELLO''), (''key'', JInt 3)])]
         failing_worker)
      (example_fs([''tmp'', ''output.txt''] \<mapsto> File ''OLD''))
      (post ''/api/encrypt'' ''27'' ''{"text": "HELLO", "key": 3}'') =
    \<lparr>reply = Sent
       \<lparr>status = 200,
        sent_headers = [(''Server'', ''BaseHTTP/0.6 Python/3.11.4''),
                        (''Date'', ''Tue, 03 Nov 2026 12:00:00 GMT''),
                        (''Content-type'', ''application/json''),
                        (''Access-Control-Allow-Origin'', ''*''),
                        (''Access-Control-Allow-Methods'', ''GET, POST, OPTIONS''),
                        (''Access-Control-Allow-Headers'', ''Content-Type'')],
        body = JsonText (JObject [(''result'', JStr ''OLD'')])\<rparr>,
     files = example_fs([''tmp'', ''output.txt''] \<mapsto> File ''OLD'',
                        [''tmp'', ''input.txt''] \<mapsto> File ''HELLO''),
     events = [Open ''/tmp/input.txt'' ''w'',
               Run [''java'', ''-cp'', ''../bin'', ''WebAppLauncher'',
                    ''/tmp/input.txt'', ''/tmp/output.txt'', ''3'', ''1''],
               Open ''/tmp/output.txt'' ''r'']\<rparr>\<close>
  by (simp add: handler_defs example_defs digits.simps)

theorem exit_code_ignored_witness:
  \<open>reply (do_POST
      (with_exit_code 1 (caesar_platform [(''27'', 27)]
         [(''{"text": "HELLO", "key": 3}'', JObject [(''text'', JStr ''HELLO''), (''key'', JInt 3)])]))
      example_fs (post ''/api/encrypt'' ''27'' ''{"text": "HELLO", "key": 3}'')) =
    Sent (result_response (caesar_platform [(''27'', 27)]
         [(''{"text": "HELLO", "key": 3}'', JObject [(''text'', JStr ''HELLO''), (''key'', JInt 3)])])
       ''KHOOR'') \<and>
   commands (events (do_POST
      (caesar_platform [(''27'', 27)]
         [(''{"text": "HELLO", "key": 3}'', JObject [(''text'', JStr ''HELLO''), (''key'', JInt 3)])])
      example_fs (post ''/api/encrypt'' ''27'' ''{"text": "HELLO", "key": 3}''))) =
     [[''java'', ''-cp'', ''../bin'', ''WebAppLauncher'',
       ''/tmp/input.txt'', ''/tmp/output.txt'', ''3'', ''1'']] \<and>
   files (do_POST
      (caesar_platform [(''27'', 27)]
         [(''{"text": "HELLO", "key": 3}'', JObject [(''text'', JStr ''HELLO''), (''key'', JInt 3)])])
      example_fs (post ''/api/encrypt'' ''27'' ''{"text": "HELLO", "key": 3}''))
      [''tmp'', ''input.txt''] = Some (File ''HELLO'')\<close>
proof -
  let ?P = \<open>caesar_platform [(''27'', 27)]
         [(''{"text": "HELLO", "key": 3}'', JObject [(''text'', JStr ''HELLO''), (''key'', JInt 3)])]\<close>
  let ?r = \<open>post ''/api/encrypt'' ''27'' ''{"text": "HELLO", "key": 3}''\<close>
  have run: "do_POST ?P example_fs ?r =
    \<lparr>reply = Sent (result_response ?P ''KHOOR''),
     files = example_fs([''tmp'', ''input.txt''] \<mapsto> File ''HELLO'',
                        [''tmp'', ''output.txt''] \<mapsto> File ''KHOOR''),
     events = [Open ''/tmp/input.txt'' ''w'',
               Run [''java'', ''-cp'', ''../bin'', ''WebAppLauncher'',
                    ''/tmp/input.txt'', ''/tmp/output.txt'', ''3'', ''1''],
               Open ''/tmp/output.txt'' ''r'']\<rparr>"
    by (simp add: handler_defs example_defs digits.simps)
  have "do_POST (with_exit_code 1 ?P) example_fs ?r = do_POST ?P example_fs ?r"
    using exit_code_ignored [of 1 ?P example_fs ?r] by blast
  with run show ?thesis by simp
qed

subsection \<open>The size of the body\<close>

text \<open>
  Claim C5, as amended. There is no maximum body size. A POST to \<^verbatim>\<open>/api/encrypt\<close> or
  \<^verbatim>\<open>/api/decrypt\<close> whose \<^verbatim>\<open>Content-Length\<close> is the length of its body, however long
  the body is, has the whole body decoded, parsed and processed as usual; and no POST is
  ever answered with status 413.
\<close>

theorem body_size_unbounded:
  assumes "path r = ''/api/encrypt'' \<or> path r = ''/api/decrypt''"
    and "content_length r = Some h"
    and "py_int P h = Inr (int (length (rfile r)))"
  shows "do_POST P t r =
           (case decode_utf8 P (rfile r) of
              Inl e \<Rightarrow> \<lparr>reply = Raised e, files = t, events = []\<rparr>
            | Inr s \<Rightarrow>
                (case json_loads P s of
                   Inl e \<Rightarrow> \<lparr>reply = Raised e, files = t, events = []\<rparr>
                 | Inr data \<Rightarrow>
                     transform_json (if path r = ''/api/encrypt'' then ''1'' else ''2'') P t data)) \<and>
         status_of (reply (do_POST Q u q)) \<noteq> Some 413"
proof -
  have "status_of (reply (do_POST Q u q)) \<noteq> Some 413"
    using do_POST_status [of Q u q] by auto
  moreover have "do_POST P t r =
           (case decode_utf8 P (rfile r) of
              Inl e \<Rightarrow> \<lparr>reply = Raised e, files = t, events = []\<rparr>
            | Inr s \<Rightarrow>
                (case json_loads P s of
                   Inl e \<Rightarrow> \<lparr>reply = Raised e, files = t, events = []\<rparr>
                 | Inr data \<Rightarrow>
                     transform_json (if path r = ''/api/encrypt'' then ''1'' else ''2'') P t data))"
    using assms(1) request_json_whole_body [OF assms(2) assms(3)]
    by (auto simp add: do_POST_encrypt do_POST_decrypt transform_def split: sum.splits)
  ultimately show ?thesis by blast
qed

text \<open>
  The claim as stated fails with 1 MiB as the limit: a body of 1048588 bytes, declared
  as such, is read and parsed, the worker is run on its text of 1048576 letters, and the
  answer has status 200.
\<close>

theorem large_body_processed_counterexample:
  \<open>(1048576::nat) < length (''{"text": "'' @ replicate 1048576 CHR ''A'' @ ''"}'') \<and>
   do_POST
     (caesar_platform [(''1048588'', 1048588)]
        [(''{"text": "'' @ replicate 1048576 CHR ''A'' @ ''"}'',
          JObject [(''text'', JStr (replicate 1048576 CHR ''A''))])])
     example_fs
     (post ''/api/encrypt'' ''1048588'' (''{"text": "'' @ replicate 1048576 CHR ''A'' @ ''"}'')) =
   \<lparr>reply = Sent
      \<lparr>status = 200,
       sent_headers = [(''Server'', ''BaseHTTP/0.6 Python/3.11.4''),
                       (''Date'', ''Tue, 03 Nov 2026 12:00:00 GMT''),
                       (''Content-type'', ''application/json''),
                       (''Access-Control-Allow-Origin'', ''*''),
                       (''Access-Control-Allow-Methods'', ''GET, POST, OPTIONS''),
                       (''Access-Control-Allow-Headers'', ''Content-Type'')],
       body = JsonText (JObject [(''result'', JStr (replicate 1048576 CHR ''D''))])\<rparr>,
    files = example_fs([''tmp'', ''input.txt''] \<mapsto> File (replicate 1048576 CHR ''A''),
                       [''tmp'', ''output.txt''] \<mapsto> File (replicate 1048576 CHR ''D'')),
    events = [Open ''/tmp/input.txt'' ''w'',
              Run [''java'', ''-cp'', ''../bin'', ''WebAppLauncher'',
                   ''/tmp/input.txt'', ''/tmp/output.txt'', ''3'', ''1''],
              Open ''/tmp/output.txt'' ''r'']\<rparr>\<close>
proof -
  have body: \<open>take 1048588 (''{"text": "'' @ replicate 1048576 CHR ''A'' @ ''"}'') =
      ''{"text": "'' @ replicate 1048576 CHR ''A'' @ ''"}''\<close>
    by simp
  have nl: "universal_newlines (replicate 1048576 CHR ''D'') = replicate 1048576 CHR ''D''"
    by (rule universal_newlines_id) simp
  show ?thesis
    by (simp add: handler_defs example_defs digits.simps body nl)
qed

theorem body_size_unbounded_witness:
  \<open>py_int (caesar_platform [(''27'', 27)]
        [(''{"text": "HELLO", "key": 3}'', JObject [(''text'', JStr ''HELLO''), (''key'', JInt 3)])])
      ''27'' = Inr (int (length ''{"text": "HELLO", "key": 3}'')) \<and>
   do_POST
     (caesar_platform [(''27'', 27)]
        [(''{"text": "HELLO", "key": 3}'', JObject [(''text'', JStr ''HELLO''), (''key'', JInt 3)])])
     example_fs (post ''/api/encrypt'' ''27'' ''{"text": "HELLO", "key": 3}'') =
   transform_json ''1''
     (caesar_platform [(''27'', 27)]
        [(''{"text": "HELLO", "key": 3}'', JObject [(''text'', JStr ''HELLO''), (''key'', JInt 3)])])
     example_fs (JObject [(''text'', JStr ''HELLO''), (''key'', JInt 3)])\<close>
proof -
  let ?P = \<open>caesar_platform [(''27'', 27)]
        [(''{"text": "HELLO", "key": 3}'', JObject [(''text'', JStr ''HELLO''), (''key'', JInt 3)])]\<close>
  let ?r = \<open>post ''/api/encrypt'' ''27'' ''{"text": "HELLO", "key": 3}''\<close>
  have p: "path ?r = ''/api/encrypt'' \<or> path ?r = ''/api/decrypt''"
    by (simp add: post_def)
  have c: "content_length ?r = Some ''27''"
    by (simp add: post_def)
  have i: "py_int ?P ''27'' = Inr (int (length (rfile ?r)))"
    by (simp add: example_defs)
  have d: \<open>decode_utf8 ?P (rfile ?r) = Inr ''{"text": "HELLO", "key": 3}''\<close>
    by (simp add: example_defs)
  have j: \<open>json_loads ?P ''{"text": "HELLO", "key": 3}'' =
      Inr (JObject [(''text'', JStr ''HELLO''), (''key'', JInt 3)])\<close>
    by (simp add: example_defs)
  have q: "path ?r = ''/api/encrypt''"
    by (simp add: post_def)
  from body_size_unbounded [OF p c i, of example_fs]
  have "do_POST ?P example_fs ?r =
      transform_json ''1'' ?P example_fs (JObject [(''text'', JStr ''HELLO''), (''key'', JInt 3)])"
    by (simp add: d j q)
  moreover have \<open>py_int ?P ''27'' = Inr (int (length ''{"text": "HELLO", "key": 3}''))\<close>
    using i by (simp add: post_def)
  ultimately show ?thesis by blast
qed

subsection \<open>The command line of the worker\<close>

text \<open>
  Claim C6. Whenever a POST handler runs a process, the request is one to
  \<^verbatim>\<open>/api/encrypt\<close> or \<^verbatim>\<open>/api/decrypt\<close> whose body is a JSON object, the process is the
  Java launcher, and the arguments it passes to the class \<^verbatim>\<open>WebAppLauncher\<close> are exactly
  the input path, the output path, \<^verbatim>\<open>str\<close> of the key (\<open>3\<close> when the body has no
  \<^verbatim>\<open>key\<close>) and the mode code, \<open>1\<close> for \<^verbatim>\<open>/api/encrypt\<close> and \<open>2\<close> for
  \<^verbatim>\<open>/api/decrypt\<close>; and it is the only process the handler runs. And the handler does
  run it, with these arguments, for every such request whose text is a string (or
  absent), once the input file could be opened and the text written to it.
\<close>

theorem worker_arguments:
  "(cmd \<in> set (commands (events (do_POST P t r))) \<longrightarrow>
      (\<exists>kvs. request_json P r = Inr (JObject kvs) \<and>
         (path r = ''/api/encrypt'' \<or> path r = ''/api/decrypt'') \<and>
         cmd = [''java'', ''-cp'', ''../bin'', ''WebAppLauncher'',
                ''/tmp/input.txt'', ''/tmp/output.txt'',
                (case map_of kvs ''key'' of None \<Rightarrow> ''3''
                 | Some k \<Rightarrow> py_str (py_repr P) k),
                (if path r = ''/api/encrypt'' then ''1'' else ''2'')] \<and>
         commands (events (do_POST P t r)) = [cmd])) \<and>
   ((path r = ''/api/encrypt'' \<or> path r = ''/api/decrypt'') \<and>
    request_json P r = Inr (JObject kvs') \<and>
    dict_get (JObject kvs') ''text'' (JStr []) = Inr (JStr x) \<and>
    open_write t ''/tmp/input.txt'' = Inr (f, t1) \<and> encode_text P x = Inr b \<longrightarrow>
      commands (events (do_POST P t r)) =
        [[''java'', ''-cp'', ''../bin'', ''WebAppLauncher'',
          ''/tmp/input.txt'', ''/tmp/output.txt'',
          (case map_of kvs' ''key'' of None \<Rightarrow> ''3''
           | Some k \<Rightarrow> py_str (py_repr P) k),
          (if path r = ''/api/encrypt'' then ''1'' else ''2'')]])"
proof -
  have runs: "commands (events (do_POST P t r)) =
        [[''java'', ''-cp'', ''../bin'', ''WebAppLauncher'',
          ''/tmp/input.txt'', ''/tmp/output.txt'',
          (case map_of kvs' ''key'' of None \<Rightarrow> ''3''
           | Some k \<Rightarrow> py_str (py_repr P) k),
          (if path r = ''/api/encrypt'' then ''1'' else ''2'')]]"
    if p: "path r = ''/api/encrypt'' \<or> path r = ''/api/decrypt''"
      and j: "request_json P r = Inr (JObject kvs')"
      and x: "dict_get (JObject kvs') ''text'' (JStr []) = Inr (JStr x)"
      and w: "open_write t ''/tmp/input.txt'' = Inr (f, t1)"
      and e: "encode_text P x = Inr b"
  proof (cases "path r = ''/api/encrypt''")
    case True
    then show ?thesis
      using transform_json_runs(1) [OF w x e, of "''1''"] j
      by (simp add: do_POST_encrypt transform_def worker_cmd_def)
  next
    case False
    with p have d: "path r = ''/api/decrypt''" by simp
    then show ?thesis
      using transform_json_runs(1) [OF w x e, of "''2''"] j
      by (simp add: do_POST_decrypt transform_def worker_cmd_def)
  qed
  have any: "\<exists>kvs. request_json P r = Inr (JObject kvs) \<and>
         (path r = ''/api/encrypt'' \<or> path r = ''/api/decrypt'') \<and>
         cmd = [''java'', ''-cp'', ''../bin'', ''WebAppLauncher'',
                ''/tmp/input.txt'', ''/tmp/output.txt'',
                (case map_of kvs ''key'' of None \<Rightarrow> ''3''
                 | Some k \<Rightarrow> py_str (py_repr P) k),
                (if path r = ''/api/encrypt'' then ''1'' else ''2'')] \<and>
         commands (events (do_POST P t r)) = [cmd]"
    if mem: "cmd \<in> set (commands (events (do_POST P t r)))"
  proof -
    consider "path r = ''/api/encrypt''" | "path r = ''/api/decrypt''"
      | "path r \<noteq> ''/api/encrypt''" "path r \<noteq> ''/api/decrypt''"
      by blast
    then show ?thesis
    proof cases
      case 1
      then show ?thesis
        using mem transform_commands [of cmd "''1''" P t r]
        by (simp add: do_POST_encrypt worker_cmd_def)
    next
      case 2
      then show ?thesis
        using mem transform_commands [of cmd "''2''" P t r]
        by (simp add: do_POST_decrypt worker_cmd_def)
    next
      case 3
      then show ?thesis using mem by (simp add: do_POST_other)
    qed
  qed
  from runs any show ?thesis by blast
qed

theorem worker_arguments_witness:
  \<open>request_json
     (caesar_platform [(''17'', 17)] [(''{"text": "HELLO"}'', JObject [(''text'', JStr ''HELLO'')])])
     (post ''/api/encrypt'' ''17'' ''{"text": "HELLO"}'') =
     Inr (JObject [(''text'', JStr ''HELLO'')]) \<and>
   open_write example_fs ''/tmp/input.txt'' =
     Inr ([''tmp'', ''input.txt''], example_fs([''tmp'', ''input.txt''] \<mapsto> File [])) \<and>
   commands (events (do_POST
     (caesar_platform [(''17'', 17)] [(''{"text": "HELLO"}'', JObject [(''text'', JStr ''HELLO'')])])
     example_fs (post ''/api/encrypt'' ''17'' ''{"text": "HELLO"}''))) =
     [[''java'', ''-cp'', ''../bin'', ''WebAppLauncher'',
       ''/tmp/input.txt'', ''/tmp/output.txt'', ''3'', ''1'']]\<close>
proof -
  let ?P = \<open>caesar_platform [(''17'', 17)] [(''{"text": "HELLO"}'', JObject [(''text'', JStr ''HELLO'')])]\<close>
  let ?r = \<open>post ''/api/encrypt'' ''17'' ''{"text": "HELLO"}''\<close>
  let ?kvs = "[(''text'', JStr ''HELLO'')]"
  have p: "path ?r = ''/api/encrypt''"
    by (simp add: post_def)
  have j: "request_json ?P ?r = Inr (JObject ?kvs)"
    by (simp add: request_json_def handler_defs example_defs)
  have x: "dict_get (JObject ?kvs) ''text'' (JStr []) = Inr (JStr ''HELLO'')"
    by simp
  have w: "open_write example_fs ''/tmp/input.txt'' =
      Inr ([''tmp'', ''input.txt''], example_fs([''tmp'', ''input.txt''] \<mapsto> File []))"
    by (simp add: handler_defs example_defs)
  have e: "encode_text ?P ''HELLO'' = Inr ''HELLO''"
    by (simp add: example_defs)
  have all: "(path ?r = ''/api/encrypt'' \<or> path ?r = ''/api/decrypt'') \<and>
      request_json ?P ?r = Inr (JObject ?kvs) \<and>
      dict_get (JObject ?kvs) ''text'' (JStr []) = Inr (JStr ''HELLO'') \<and>
      open_write example_fs ''/tmp/input.txt'' =
        Inr ([''tmp'', ''input.txt''], example_fs([''tmp'', ''input.txt''] \<mapsto> File [])) \<and>
      encode_text ?P ''HELLO'' = Inr ''HELLO''"
    using p j x w e by blast
  have k: "(case map_of ?kvs ''key'' of None \<Rightarrow> ''3'' | Some k \<Rightarrow> py_str (py_repr ?P) k) = ''3''"
    by simp
  from worker_arguments [of "[]" ?P example_fs ?r ?kvs "''HELLO''"
      "[''tmp'', ''input.txt'']" "example_fs([''tmp'', ''input.txt''] \<mapsto> File [])"
      "''HELLO''", THEN conjunct2, rule_format, OF all]
  have "commands (events (do_POST ?P example_fs ?r)) =
     [[''java'', ''-cp'', ''../bin'', ''WebAppLauncher'',
       ''/tmp/input.txt'', ''/tmp/output.txt'', ''3'', ''1'']]"
    unfolding k p by simp
  with j w show ?thesis by blast
qed

subsection \<open>Encrypting, then decrypting\<close>




subsection \<open>Response headers\<close>




subsection \<open>The status endpoint\<close>

text \<open>
  Claim C9, as amended. The handler of a GET request to \<^verbatim>\<open>/api/status\<close> answers with
  status 200 and the body \<^verbatim>\<open>{"status": "running"}\<close>, leaves the file system as it
  was, opens no file and runs no process. The server handles one request at a time and
  runs the worker without a timeout: a status request is answered, in this way, exactly
  when the handler of no earlier request hangs, and is never answered behind a worker
  process that does not end.
\<close>

theorem status_running:
  assumes "path r = ''/api/status''"
  shows "do_GET P t r =
           \<lparr>reply = Sent
              \<lparr>status = 200,
               sent_headers =
                 [(''Server'', version_string P), (''Date'', date_time_string P),
                  (''Content-type'', ''application/json''),
                  (''Access-Control-Allow-Origin'', ''*''),
                  (''Access-Control-Allow-Methods'', ''GET, POST, OPTIONS''),
                  (''Access-Control-Allow-Headers'', ''Content-Type'')],
               body = JsonText (JObject [(''status'', JStr ''running'')])\<rparr>,
            files = t, events = []\<rparr> \<and>
         last (serve_forever P t (reqs @ [(GET, r)])) =
           (if Some Hung \<in> set (serve_forever P t reqs) then None
            else Some (Sent
              \<lparr>status = 200,
               sent_headers =
                 [(''Server'', version_string P), (''Date'', date_time_string P),
                  (''Content-type'', ''application/json''),
                  (''Access-Control-Allow-Origin'', ''*''),
                  (''Access-Control-Allow-Methods'', ''GET, POST, OPTIONS''),
                  (''Access-Control-Allow-Headers'', ''Content-Type'')],
               body = JsonText (JObject [(''status'', JStr ''running'')])\<rparr>))"
  using assms serve_forever_status [OF assms, of P t reqs]
  by (simp add: do_GET_def set_headers_eq wfile_write_def)

text \<open>
  The claim as stated fails: a status request that arrives after a request whose worker
  process does not end gets no answer.
\<close>

theorem status_behind_hanging_worker_counterexample:
  \<open>serve_forever
     (example_platform [(''27'', 27)]
        [(''{"text": "HELLO", "key": 3}'', JObject [(''text'', JStr ''HELLO''), (''key'', JInt 3)])]
        hanging_worker)
     example_fs
     [(POST, post ''/api/encrypt'' ''27'' ''{"text": "HELLO", "key": 3}''),
      (GET, get ''/api/status'')] =
   [Some Hung, None]\<close>
  by (simp add: handler_defs example_defs digits.simps Let_def hanging_worker_def)

theorem status_running_witness:
  \<open>serve_forever
     (caesar_platform [(''27'', 27)]
        [(''{"text": "HELLO", "key": 3}'', JObject [(''text'', JStr ''HELLO''), (''key'', JInt 3)])])
     example_fs
     [(POST, post ''/api/encrypt'' ''27'' ''{"text": "HELLO", "key": 3}'')] =
   [Some (Sent (result_response
     (caesar_platform [(''27'', 27)]
        [(''{"text": "HELLO", "key": 3}'', JObject [(''text'', JStr ''HELLO''), (''key'', JInt 3)])])
     ''KHOOR''))] \<and>
   last (serve_forever
     (caesar_platform [(''27'', 27)]
        [(''{"text": "HELLO", "key": 3}'', JObject [(''text'', JStr ''HELLO''), (''key'', JInt 3)])])
     example_fs
     [(POST, post ''/api/encrypt'' ''27'' ''{"text": "HELLO", "key": 3}''),
      (GET, get ''/api/status'')]) =
   Some (Sent
     \<lparr>status = 200,
      sent_headers =
        [(''Server'', ''BaseHTTP/0.6 Python/3.11.4''),
         (''Date'', ''Tue, 03 Nov 2026 12:00:00 GMT''),
         (''Content-type'', ''application/json''),
         (''Access-Control-Allow-Origin'', ''*''),
         (''Access-Control-Allow-Methods'', ''GET, POST, OPTIONS''),
         (''Access-Control-Allow-Headers'', ''Content-Type'')],
      body = JsonText (JObject [(''status'', JStr ''running'')])\<rparr>)\<close>
proof -
  let ?P = \<open>caesar_platform [(''27'', 27)]
        [(''{"text": "HELLO", "key": 3}'', JObject [(''text'', JStr ''HELLO''), (''key'', JInt 3)])]\<close>
  let ?q = \<open>(POST, post ''/api/encrypt'' ''27'' ''{"text": "HELLO", "key": 3}'')\<close>
  have p: "path (get ''/api/status'') = ''/api/status''"
    by (simp add: get_def)
  have before: "serve_forever ?P example_fs [?q] = [Some (Sent (result_response ?P ''KHOOR''))]"
    by (simp add: handler_defs example_defs digits.simps Let_def)
  have v: "version_string ?P = ''BaseHTTP/0.6 Python/3.11.4''"
    and d: "date_time_string ?P = ''Tue, 03 Nov 2026 12:00:00 GMT''"
    by (simp_all add: example_defs)
  from status_running [OF p, of ?P example_fs "[?q]", THEN conjunct2]
  have "last (serve_forever ?P example_fs [?q, (GET, get ''/api/status'')]) =
    Some (Sent
     \<lparr>status = 200,
      sent_headers =
        [(''Server'', ''BaseHTTP/0.6 Python/3.11.4''),
         (''Date'', ''Tue, 03 Nov 2026 12:00:00 GMT''),
         (''Content-type'', ''application/json''),
         (''Access-Control-Allow-Origin'', ''*''),
         (''Access-Control-Allow-Methods'', ''GET, POST, OPTIONS''),
         (''Access-Control-Allow-Headers'', ''Content-Type'')],
      body = JsonText (JObject [(''status'', JStr ''running'')])\<rparr>)"
    unfolding before v d by simp
  with before show ?thesis by blast
qed

subsection \<open>The two branches of the POST handler\<close>

lemma run_worker_mode:
  "run_worker m P t k =
     (let h = run_worker m' (P\<lparr>subprocess_run := \<lambda>cmd. subprocess_run P (butlast cmd @ [m])\<rparr>) t k
      in h\<lparr>events := map (with_mode m) (events h)\<rparr>)"
  by (simp add: run_worker_def worker_cmd_def Let_def set_headers_eq
      split: run_result.splits sum.splits)

lemma transform_json_mode:
  "transform_json m P t data =
     (let h = transform_json m' (P\<lparr>subprocess_run := \<lambda>cmd. subprocess_run P (butlast cmd @ [m])\<rparr>) t data
      in h\<lparr>events := map (with_mode m) (events h)\<rparr>)"
  by (simp add: transform_json_def Let_def run_worker_mode [of m P _ _ m']
      split: sum.splits prod.splits)

lemma transform_mode:
  "transform m P t r =
     (let h = transform m' (P\<lparr>subprocess_run := \<lambda>cmd. subprocess_run P (butlast cmd @ [m])\<rparr>) t r
      in h\<lparr>events := map (with_mode m) (events h)\<rparr>)"
proof (cases "request_json P r")
  case (Inl e)
  then show ?thesis by (simp add: transform_def request_json_worker)
next
  case (Inr data)
  then show ?thesis
    using transform_json_mode [of m P t data m']
    by (simp add: transform_def request_json_worker)
qed

text \<open>
  Claim C10. The branch for \<^verbatim>\<open>/api/encrypt\<close> and the branch for \<^verbatim>\<open>/api/decrypt\<close> are
  the same procedure \<open>transform\<close>, run with mode code \<open>1\<close> and \<open>2\<close>: the same
  scratch paths, the same text (the empty string when missing), the same key (3 when
  missing), the same executable, the same response. The mode code is the one difference:
  the decrypt branch is the encrypt branch run with a worker that is given \<open>2\<close> as its
  last argument, and with \<open>2\<close> as the last argument of the command line it records.
\<close>

theorem encrypt_decrypt_same_procedure:
  "do_POST P t (r\<lparr>path := ''/api/encrypt''\<rparr>) = transform ''1'' P t r \<and>
   do_POST P t (r\<lparr>path := ''/api/decrypt''\<rparr>) = transform ''2'' P t r \<and>
   do_POST P t (r\<lparr>path := ''/api/decrypt''\<rparr>) =
     (let h = do_POST (P\<lparr>subprocess_run := \<lambda>cmd. subprocess_run P (butlast cmd @ [''2''])\<rparr>) t
                (r\<lparr>path := ''/api/encrypt''\<rparr>)
      in h\<lparr>events := map (with_mode ''2'') (events h)\<rparr>)"
  by (simp add: do_POST_encrypt do_POST_decrypt transform_path transform_mode [of "''2''" P t r "''1''"])

theorem encrypt_decrypt_same_procedure_witness:
  \<open>do_POST
     (caesar_platform [(''27'', 27)]
        [(''{"text": "KHOOR", "key": 3}'', JObject [(''text'', JStr ''KHOOR''), (''key'', JInt 3)])])
     example_fs (post ''/api/decrypt'' ''27'' ''{"text": "KHOOR", "key": 3}'') =
   transform ''2''
     (caesar_platform [(''27'', 27)]
        [(''{"text": "KHOOR", "key": 3}'', JObject [(''text'', JStr ''KHOOR''), (''key'', JInt 3)])])
     example_fs (post ''/api/encrypt'' ''27'' ''{"text": "KHOOR", "key": 3}'') \<and>
   commands (events (do_POST
     (caesar_platform [(''27'', 27)]
        [(''{"text": "KHOOR", "key": 3}'', JObject [(''text'', JStr ''KHOOR''), (''key'', JInt 3)])])
     example_fs (post ''/api/decrypt'' ''27'' ''{"text": "KHOOR", "key": 3}''))) =
     [[''java'', ''-cp'', ''../bin'', ''WebAppLauncher'',
       ''/tmp/input.txt'', ''/tmp/output.txt'', ''3'', ''2'']] \<and>
   commands (events (do_POST
     (caesar_platform [(''27'', 27)]
        [(''{"text": "KHOOR", "key": 3}'', JObject [(''text'', JStr ''KHOOR''), (''key'', JInt 3)])])
     example_fs (post ''/api/encrypt'' ''27'' ''{"text": "KHOOR", "key": 3}''))) =
     [[''java'', ''-cp'', ''../bin'', ''WebAppLauncher'',
       ''/tmp/input.txt'', ''/tmp/output.txt'', ''3'', ''1'']]\<close>
proof -
  let ?P = \<open>caesar_platform [(''27'', 27)]
        [(''{"text": "KHOOR", "key": 3}'', JObject [(''text'', JStr ''KHOOR''), (''key'', JInt 3)])]\<close>
  let ?r = \<open>post ''/api/encrypt'' ''27'' ''{"text": "KHOOR", "key": 3}''\<close>
  have "do_POST ?P example_fs (?r\<lparr>path := ''/api/decrypt''\<rparr>) = transform ''2'' ?P example_fs ?r"
    using encrypt_decrypt_same_procedure [of ?P example_fs ?r] by blast
  then have first: "do_POST ?P example_fs (post ''/api/decrypt'' ''27'' (rfile ?r)) =
      transform ''2'' ?P example_fs ?r"
    by (simp add: post_def)
  have second: "commands (events (do_POST ?P example_fs (post ''/api/decrypt'' ''27'' (rfile ?r)))) =
     [[''java'', ''-cp'', ''../bin'', ''WebAppLauncher'',
       ''/tmp/input.txt'', ''/tmp/output.txt'', ''3'', ''2'']]"
    by (simp add: handler_defs example_defs digits.simps)
  have third: "commands (events (do_POST ?P example_fs ?r)) =
     [[''java'', ''-cp'', ''../bin'', ''WebAppLauncher'',
       ''/tmp/input.txt'', ''/tmp/output.txt'', ''3'', ''1'']]"
    by (simp add: handler_defs example_defs digits.simps)
  from first second third show ?thesis by (simp add: post_def)
qed

end
